theory Spec2Isabelle
  imports Main "HOL-Library.Sublist"
begin

section \<open>The parsed document\<close>

text \<open>
  Both \<^verbatim>\<open>src/api/app.py\<close> and \<^verbatim>\<open>src/app.py\<close> work on the tree that BeautifulSoup
  (version 4.11 and later, with \<^verbatim>\<open>html.parser\<close>) builds from the fetched page. A node of
  that tree is a string or a tag. A string has a class: \<^verbatim>\<open>NavigableString\<close> for
  ordinary text, and a subclass of it for a CDATA section, a comment, a doctype,
  declaration or processing instruction, and for the text the parser finds inside a
  \<^verbatim>\<open>style\<close>, \<^verbatim>\<open>script\<close>, \<^verbatim>\<open>template\<close>, \<^verbatim>\<open>rt\<close> or \<^verbatim>\<open>rp\<close> tag. A tag has a
  name, the values of its \<^verbatim>\<open>class\<close> attribute (empty when the attribute is absent) and
  its contents in document order. A document is the list of top-level nodes under the
  soup object, which is itself never a \<^verbatim>\<open>div\<close>. Strings are ASCII.
\<close>

datatype string_class =
  NavigableString | CData | Comment | Doctype | Declaration | ProcessingInstruction
  | Stylesheet | Script | TemplateString | RubyTextString | RubyParenthesisString

datatype node = Str string_class string | Elem string "string list" "node list"

text \<open>Ordinary text.\<close>

abbreviation Text :: "string \<Rightarrow> node" where
  "Text s \<equiv> Str NavigableString s"

fun contents :: "node \<Rightarrow> node list" where
  "contents (Str c s) = []"
| "contents (Elem n cs kids) = kids"

fun is_div :: "node \<Rightarrow> bool" where
  "is_div (Str c s) = False"
| "is_div (Elem n cs kids) = (n = ''div'')"

fun has_class :: "string \<Rightarrow> node \<Rightarrow> bool" where
  "has_class c (Str k s) = False"
| "has_class c (Elem n cs kids) = (c \<in> set cs)"

text \<open>
  A tag found by a search is kept together with where it was found: its ancestors
  (nearest first) and the siblings that follow it. \<open>descendants anc ns\<close> lists every tag
  below the sibling list \<open>ns\<close> in document order, which is the order in which
  \<^verbatim>\<open>find\<close> and \<^verbatim>\<open>find_all\<close> visit them.
\<close>

type_synonym located = "node list \<times> node \<times> node list"

fun descendants :: "node list \<Rightarrow> node list \<Rightarrow> located list" where
  "descendants anc [] = []"
| "descendants anc (Str c s # rest) = descendants anc rest"
| "descendants anc (Elem n cs kids # rest) =
     (anc, Elem n cs kids, rest)
       # descendants (Elem n cs kids # anc) kids @ descendants anc rest"

definition tag_of :: "located \<Rightarrow> node" where
  "tag_of l = fst (snd l)"

definition ancestors_of :: "located \<Rightarrow> node list" where
  "ancestors_of l = fst l"

definition next_siblings_of :: "located \<Rightarrow> node list" where
  "next_siblings_of l = snd (snd l)"

text \<open>\<^verbatim>\<open>tag.find_all(...)\<close>: the matching tags below \<open>t\<close>, in document order.\<close>

definition find_all :: "(node \<Rightarrow> bool) \<Rightarrow> node \<Rightarrow> located list" where
  "find_all P t = filter (\<lambda>l. P (tag_of l)) (descendants [] (contents t))"

text \<open>\<^verbatim>\<open>tag.find(...)\<close>: the first matching tag below \<open>t\<close>, or \<open>None\<close>.\<close>

definition find_in :: "(node \<Rightarrow> bool) \<Rightarrow> node \<Rightarrow> located option" where
  "find_in P t = List.find (\<lambda>l. P (tag_of l)) (descendants [] (contents t))"

text \<open>\<^verbatim>\<open>soup.find(...)\<close>: the first matching tag of the whole document.\<close>

definition soup_find :: "(node \<Rightarrow> bool) \<Rightarrow> node list \<Rightarrow> located option" where
  "soup_find P doc = List.find (\<lambda>l. P (tag_of l)) (descendants [] doc)"

text \<open>
  \<^verbatim>\<open>tag.find_parent('div')\<close>: the nearest ancestor that is a \<^verbatim>\<open>div\<close>, returned
  with its own ancestors so that the search can go on from it.
\<close>

fun find_parent_div :: "node list \<Rightarrow> (node \<times> node list) option" where
  "find_parent_div [] = None"
| "find_parent_div (a # anc) = (if is_div a then Some (a, anc) else find_parent_div anc)"

text \<open>
  \<^verbatim>\<open>tag.find_next_sibling('div', class_='dpTableValue')\<close>: the first later sibling
  that matches.
\<close>

definition find_next_sibling :: "(node \<Rightarrow> bool) \<Rightarrow> located \<Rightarrow> node option" where
  "find_next_sibling P l = List.find P (next_siblings_of l)"

subsection \<open>Text of a tag\<close>

text \<open>
  \<^verbatim>\<open>tag.string\<close>: the string of a tag whose only child is a string of any class, or
  whose only child is a tag that has a \<^verbatim>\<open>string\<close>.
\<close>

fun node_string :: "node \<Rightarrow> string option" where
  "node_string (Str c s) = Some s"
| "node_string (Elem n cs [k]) = node_string k"
| "node_string (Elem n cs kids) = None"

text \<open>
  The parser's \<^verbatim>\<open>string_containers\<close>: the tags whose text gets a class of its own. An
  ordinary text gets the class of the innermost such tag it is in.
\<close>

definition string_container :: "string \<Rightarrow> string_class option" where
  "string_container n =
     map_of [(''rt'', RubyTextString), (''rp'', RubyParenthesisString), (''style'', Stylesheet),
             (''script'', Script), (''template'', TemplateString)] n"

text \<open>
  \<^verbatim>\<open>tag.interesting_string_types\<close>: the classes of the strings that count as the text
  of a tag. For a tag that is a string container it is the class of that container, for
  every other tag ordinary text and CDATA sections.
\<close>

fun interesting_string_types :: "node \<Rightarrow> string_class list" where
  "interesting_string_types (Str c s) = []"
| "interesting_string_types (Elem n cs kids) =
     (case string_container n of Some k \<Rightarrow> [k] | None \<Rightarrow> [NavigableString, CData])"

text \<open>
  \<^verbatim>\<open>tag._all_strings(types=...)\<close>, the generator behind \<^verbatim>\<open>stripped_strings\<close> and
  \<^verbatim>\<open>text\<close>: the strings below a tag, in document order, whose class is one of
  \<open>types\<close>. So the text inside a \<^verbatim>\<open>style\<close>, \<^verbatim>\<open>script\<close>, \<^verbatim>\<open>template\<close>,
  \<^verbatim>\<open>rt\<close> or \<^verbatim>\<open>rp\<close> tag, and every comment, is not part of the text of a
  \<^verbatim>\<open>div\<close> around it. \<open>k\<close> is the class the parser gives to ordinary text at this
  place, so that a string written as \<open>Text\<close> below a string container is read with the
  class it has in the parsed tree.
\<close>

fun all_strings :: "string_class list \<Rightarrow> string_class \<Rightarrow> node \<Rightarrow> string list" where
  "all_strings types k (Str c s) =
     (if (if c = NavigableString then k else c) \<in> set types then [s] else [])"
| "all_strings types k (Elem n cs kids) =
     concat (map (all_strings types (case string_container n of Some k' \<Rightarrow> k' | None \<Rightarrow> k)) kids)"

text \<open>The strings that make up the text of a tag.\<close>

fun strings_of :: "node \<Rightarrow> string list" where
  "strings_of (Str c s) = []"
| "strings_of (Elem n cs kids) =
     concat (map (all_strings (interesting_string_types (Elem n cs kids))
                    (case string_container n of Some k \<Rightarrow> k | None \<Rightarrow> NavigableString)) kids)"

definition is_space :: "char \<Rightarrow> bool" where
  "is_space c =
     (c \<in> set [CHR '' '', CHR 0x09, CHR 0x0A, CHR 0x0B, CHR 0x0C, CHR 0x0D,
                CHR 0x1C, CHR 0x1D, CHR 0x1E, CHR 0x1F])"

text \<open>\<^verbatim>\<open>str.strip()\<close>, which removes the ASCII whitespace of \<open>is_space\<close> at both ends.\<close>

definition strip :: "string \<Rightarrow> string" where
  "strip s = rev (dropWhile is_space (rev (dropWhile is_space s)))"

text \<open>\<^verbatim>\<open>str.lower()\<close>\<close>

definition lower_char :: "char \<Rightarrow> char" where
  "lower_char c =
     (case map_of (zip ''ABCDEFGHIJKLMNOPQRSTUVWXYZ'' ''abcdefghijklmnopqrstuvwxyz'') c of
        Some l \<Rightarrow> l | None \<Rightarrow> c)"

definition lower :: "string \<Rightarrow> string" where
  "lower s = map lower_char s"

text \<open>\<^verbatim>\<open>' '.join(...)\<close>\<close>

fun join_space :: "string list \<Rightarrow> string" where
  "join_space [] = []"
| "join_space [s] = s"
| "join_space (s # t # ss) = s @ '' '' @ join_space (t # ss)"

text \<open>
  \<^verbatim>\<open>tag.stripped_strings\<close>: the strings of the text of the tag, stripped, the empty
  ones left out.
\<close>

definition stripped_strings :: "node \<Rightarrow> string list" where
  "stripped_strings t = filter (\<lambda>s. s \<noteq> []) (map strip (strings_of t))"

text \<open>\<^verbatim>\<open>' '.join(tag.stripped_strings).strip()\<close>\<close>

definition joined_text :: "node \<Rightarrow> string" where
  "joined_text t = strip (join_space (stripped_strings t))"

text \<open>\<^verbatim>\<open>tag.text\<close>: the strings of the text of the tag, concatenated as they are.\<close>

definition get_text :: "node \<Rightarrow> string" where
  "get_text t = concat (strings_of t)"

text \<open>\<^verbatim>\<open>a in b\<close> on strings: \<open>a\<close> occurs in \<open>b\<close> as a contiguous substring.\<close>

fun str_in :: "string \<Rightarrow> string \<Rightarrow> bool" where
  "str_in a [] = (a = [])"
| "str_in a (c # b) = (prefix a (c # b) \<or> str_in a b)"


section \<open>What the program takes from outside\<close>

text \<open>
  A \<^verbatim>\<open>datetime.date\<close> is its proleptic Gregorian ordinal; the last date Python can
  hold is 9999-12-31, ordinal 3652059, and adding a day to it raises
  \<^verbatim>\<open>OverflowError\<close>.
\<close>

type_synonym date = int

datatype exn = RequestException | NameError | OverflowError | ValueError | LookupFault

definition date_max :: date where
  "date_max = 3652059"

text \<open>\<^verbatim>\<open>d + timedelta(days=1)\<close>\<close>

definition add_one_day :: "date \<Rightarrow> exn + date" where
  "add_one_day d = (if d + 1 \<le> date_max then Inr (d + 1) else Inl OverflowError)"

text \<open>
  The library and the network are parameters of the model:
  \<^item> \<open>strptime s\<close> is \<^verbatim>\<open>datetime.strptime(s, '%Y-%m-%d').date()\<close>, \<open>None\<close> when it
    raises \<^verbatim>\<open>ValueError\<close>;
  \<^item> \<open>strftime d fmt\<close> is \<^verbatim>\<open>d.strftime(fmt)\<close>;
  \<^item> \<open>http_get url\<close> is the parsed page behind \<open>url\<close>, \<open>None\<close> when
    \<^verbatim>\<open>requests.get\<close> or \<^verbatim>\<open>raise_for_status\<close> raises;
  \<^item> \<open>raises key\<close> says that a call into the tree library raises an exception while
    the per-key helper works on \<open>key\<close>. No such call raises on a well-formed tree, so this
    is what gives the helper's \<^verbatim>\<open>except Exception\<close> branch something to catch.
\<close>

record env =
  strptime :: "string \<Rightarrow> date option"
  strftime :: "date \<Rightarrow> string \<Rightarrow> string"
  http_get :: "string \<Rightarrow> node list option"
  raises :: "string \<Rightarrow> bool"

text \<open>A Python dict with string keys and values, in insertion order.\<close>

type_synonym dict = "(string \<times> string) list"

text \<open>The six fields of a day and the key each is looked up under, in the order of the source.\<close>

definition fields :: "(string \<times> string) list" where
  "fields = [(''sunrise'', ''Sunrise''), (''sunset'', ''Sunset''), (''tithi'', ''Tithi''),
             (''nakshatra'', ''Nakshatra''), (''yoga'', ''Yoga''), (''karana'', ''Karana'')]"

definition not_found :: string where
  "not_found = ''Not Found''"

definition url_of :: "env \<Rightarrow> date \<Rightarrow> string" where
  "url_of e d =
     ''https://www.drikpanchang.com/panchang/day-panchang.html?geoname-id=1261481&date=''
       @ strftime e d ''%d/%m/%Y''"

section \<open>\<^verbatim>\<open>src/api/app.py\<close>: \<^verbatim>\<open>scrape_panchang_for_day\<close>\<close>

definition is_card :: "node \<Rightarrow> bool" where
  "is_card t = (is_div t \<and> has_class ''dpPanchangCard'' t)"

definition is_key :: "node \<Rightarrow> bool" where
  "is_key t = (is_div t \<and> has_class ''dpTableKey'' t)"

definition is_value :: "node \<Rightarrow> bool" where
  "is_value t = (is_div t \<and> has_class ''dpTableValue'' t)"

text \<open>\<^verbatim>\<open>soup.find('div', class_='dpTableKey', string='Sunrise')\<close>\<close>

definition is_sunrise_key :: "node \<Rightarrow> bool" where
  "is_sunrise_key t = (is_key t \<and> node_string t = Some ''Sunrise'')"

text \<open>\<^verbatim>\<open>len(tag.find_all('div', class_='dpTableKey'))\<close>\<close>

definition key_count :: "node \<Rightarrow> nat" where
  "key_count t = length (find_all is_key t)"

text \<open>
  The \<^verbatim>\<open>while current_parent:\<close> loop of lines 60 to 65: \<open>cur\<close> is
  \<^verbatim>\<open>current_parent\<close> with its ancestors, and the result is what the loop leaves in
  \<^verbatim>\<open>panchang_card\<close>.
\<close>

function climb :: "(node \<times> node list) option \<Rightarrow> node option" where
  "climb None = None"
| "climb (Some (p, anc)) = (if 5 \<le> key_count p then Some p else climb (find_parent_div anc))"
  by pat_completeness auto
termination
proof (relation "measure (\<lambda>cur. case cur of None \<Rightarrow> 0 | Some (p, anc) \<Rightarrow> Suc (length anc))")
  fix p :: node and anc :: "node list"
  show "(find_parent_div anc, Some (p, anc))
          \<in> measure (\<lambda>cur. case cur of None \<Rightarrow> 0 | Some (p, anc) \<Rightarrow> Suc (length anc))"
    by (induction anc) (auto split: option.splits)
qed simp

text \<open>
  Lines 46 to 74. The result is \<open>None\<close> where the source returns at line 74, and
  otherwise the value of \<^verbatim>\<open>panchang_card\<close> on reaching line 76 (which the last resort
  of line 70 may have set to \<^verbatim>\<open>None\<close>) with the branch that assigned it.
\<close>

datatype tier = Primary | Secondary | Tertiary

definition locate_card :: "node list \<Rightarrow> (tier \<times> node option) option" where
  "locate_card doc =
     (case soup_find is_card doc of
        Some c \<Rightarrow> Some (Primary, Some (tag_of c))
      | None \<Rightarrow>
          (case soup_find is_sunrise_key doc of
             None \<Rightarrow> None
           | Some s \<Rightarrow>
               (case climb (find_parent_div (ancestors_of s)) of
                  Some p \<Rightarrow> Some (Secondary, Some p)
                | None \<Rightarrow> Some (Tertiary, map_option fst (find_parent_div (ancestors_of s))))))"

text \<open>The anchor the extraction works on, when there is one.\<close>

definition resolve_anchor :: "node list \<Rightarrow> node option" where
  "resolve_anchor doc = (case locate_card doc of None \<Rightarrow> None | Some (t, panchang_card) \<Rightarrow> panchang_card)"

text \<open>The \<^verbatim>\<open>for key_element in key_elements\<close> loop of lines 90 to 100, and line 105 after it.\<close>

fun scan_keys :: "string \<Rightarrow> located list \<Rightarrow> string" where
  "scan_keys key [] = not_found"
| "scan_keys key (k # ks) =
     (if str_in (lower key) (lower (joined_text (tag_of k)))
      then (case find_next_sibling is_value k of
              Some v \<Rightarrow> joined_text v
            | None \<Rightarrow> not_found)
      else scan_keys key ks)"

text \<open>The body of the \<^verbatim>\<open>try\<close> block of \<^verbatim>\<open>get_value_from_table\<close>.\<close>

definition table_lookup :: "env \<Rightarrow> node \<Rightarrow> string \<Rightarrow> exn + string" where
  "table_lookup e panchang_card key =
     (if raises e key then Inl LookupFault else Inr (scan_keys key (find_all is_key panchang_card)))"

definition get_value_from_table :: "env \<Rightarrow> node \<Rightarrow> string \<Rightarrow> string" where
  "get_value_from_table e panchang_card key =
     (case table_lookup e panchang_card key of Inl x \<Rightarrow> not_found | Inr v \<Rightarrow> v)"

text \<open>
  Lines 46 to 122, the part of \<^verbatim>\<open>scrape_panchang_for_day\<close> that works on the parsed
  page. Line 77 names the undefined \<^verbatim>\<open>date_str_for_day\<close>, so reaching it raises
  \<^verbatim>\<open>NameError\<close>. Both returns of lines 119 and 122 return \<^verbatim>\<open>data\<close>.
\<close>

definition extract_day :: "env \<Rightarrow> node list \<Rightarrow> date \<Rightarrow> exn + dict option" where
  "extract_day e doc d =
     (case locate_card doc of
        None \<Rightarrow> Inr None
      | Some (t, None) \<Rightarrow> Inl NameError
      | Some (t, Some panchang_card) \<Rightarrow>
          Inr (Some ((''date'', strftime e d ''%Y-%m-%d'')
                       # map (\<lambda>(field, key). (field, get_value_from_table e panchang_card key)) fields)))"

text \<open>
  The result is the URL that was requested and what the function returns. Every exception
  inside the outer \<^verbatim>\<open>try\<close> ends in \<^verbatim>\<open>return None\<close>. \<open>location_str\<close> is a parameter
  of the source function.
\<close>

definition scrape_panchang_for_day :: "env \<Rightarrow> date \<Rightarrow> string \<Rightarrow> string \<times> dict option" where
  "scrape_panchang_for_day e date_obj location_str =
     (let url = url_of e date_obj
      in (url, case http_get e url of
                 None \<Rightarrow> None
               | Some doc \<Rightarrow>
                   (case extract_day e doc date_obj of Inl x \<Rightarrow> None | Inr r \<Rightarrow> r)))"

section \<open>\<^verbatim>\<open>src/app.py\<close>: \<^verbatim>\<open>scrape_panchang_for_day\<close>\<close>

text \<open>
  The definitions of \<^verbatim>\<open>src/app.py\<close> carry the suffix \<open>_v1\<close> where \<^verbatim>\<open>src/api/app.py\<close>
  has a function of the same name.
\<close>

definition is_table :: "node \<Rightarrow> bool" where
  "is_table t = (is_div t \<and> has_class ''dpPanchang'' t)"

text \<open>The \<^verbatim>\<open>for row in rows\<close> loop of \<^verbatim>\<open>get_value_from_row\<close> and the return after it.\<close>

fun scan_rows :: "string \<Rightarrow> located list \<Rightarrow> string" where
  "scan_rows row_name [] = not_found"
| "scan_rows row_name (row # rows) =
     (case find_in (has_class ''dpLabel'') (tag_of row) of
        None \<Rightarrow> scan_rows row_name rows
      | Some label_element \<Rightarrow>
          if str_in row_name (get_text (tag_of label_element))
          then (case find_in (has_class ''dpValue'') (tag_of row) of
                  Some value_element \<Rightarrow> strip (get_text (tag_of value_element))
                | None \<Rightarrow> not_found)
          else scan_rows row_name rows)"

text \<open>\<^verbatim>\<open>get_value_from_row\<close> has no handler of its own: what is raised in it leaves it.\<close>

definition get_value_from_row :: "env \<Rightarrow> located list \<Rightarrow> string \<Rightarrow> exn + string" where
  "get_value_from_row e rows row_name =
     (if raises e row_name then Inl LookupFault else Inr (scan_rows row_name rows))"

text \<open>The six assignments in turn; the first exception ends them.\<close>

fun assign_all :: "(string \<Rightarrow> exn + string) \<Rightarrow> (string \<times> string) list \<Rightarrow> exn + dict" where
  "assign_all get [] = Inr []"
| "assign_all get ((field, key) # rest) =
     (case get key of
        Inl x \<Rightarrow> Inl x
      | Inr v \<Rightarrow> (case assign_all get rest of Inl x \<Rightarrow> Inl x | Inr data \<Rightarrow> Inr ((field, v) # data)))"

definition extract_day_v1 :: "env \<Rightarrow> node list \<Rightarrow> date \<Rightarrow> exn + dict option" where
  "extract_day_v1 e doc d =
     (case soup_find is_table doc of
        None \<Rightarrow> Inr None
      | Some panchang_table \<Rightarrow>
          (case assign_all (get_value_from_row e (find_all (has_class ''dpRow'') (tag_of panchang_table)))
                  fields of
             Inl x \<Rightarrow> Inl x
           | Inr data \<Rightarrow> Inr (Some ((''date'', strftime e d ''%Y-%m-%d'') # data))))"

definition scrape_panchang_for_day_v1 :: "env \<Rightarrow> date \<Rightarrow> string \<Rightarrow> string \<times> dict option" where
  "scrape_panchang_for_day_v1 e date_obj location_str =
     (let url = url_of e date_obj
      in (url, case http_get e url of
                 None \<Rightarrow> None
               | Some doc \<Rightarrow>
                   (case extract_day_v1 e doc date_obj of Inl x \<Rightarrow> None | Inr r \<Rightarrow> r)))"

section \<open>\<^verbatim>\<open>get_panchang\<close>, the handler of \<^verbatim>\<open>/panchang\<close>\<close>

text \<open>
  What a run of the handler does to the outside is recorded as a list of events: every
  string given to \<^verbatim>\<open>strptime\<close> and every URL requested, in order.
\<close>

datatype event = Parse string | Fetch string

datatype body = ErrorJson string | PanchangJson "dict list"

type_synonym response = "body \<times> nat"

definition is_fetch :: "event \<Rightarrow> bool" where
  "is_fetch ev = (case ev of Fetch u \<Rightarrow> True | Parse s \<Rightarrow> False)"

text \<open>
  What one turn of the loop appends: \<^verbatim>\<open>if day_data:\<close> is false for \<^verbatim>\<open>None\<close> and
  for an empty dict, and then the error entry of the day is appended.
\<close>

definition appended :: "dict option \<Rightarrow> dict \<Rightarrow> dict" where
  "appended day_data error_entry =
     (case day_data of
        None \<Rightarrow> error_entry
      | Some data \<Rightarrow> if data \<noteq> [] then data else error_entry)"

text \<open>
  The \<^verbatim>\<open>while current_date <= end_date\<close> loop, which is the same in both files but for
  the function it calls and the text of the error entry. \<open>acc\<close> is
  \<^verbatim>\<open>all_panchang_data\<close>, \<open>tr\<close> the events so far.
\<close>

function panchang_loop ::
  "(date \<Rightarrow> string \<Rightarrow> string \<times> dict option) \<Rightarrow> (date \<Rightarrow> dict) \<Rightarrow> date \<Rightarrow> date \<Rightarrow> string
     \<Rightarrow> dict list \<Rightarrow> event list \<Rightarrow> (exn + dict list) \<times> event list" where
  "panchang_loop scrape err current_date end_date location acc tr =
     (if current_date \<le> end_date then
        (let (url, day_data) = scrape current_date location;
             acc' = acc @ [appended day_data (err current_date)];
             tr' = tr @ [Fetch url]
         in case add_one_day current_date of
              Inl x \<Rightarrow> (Inl x, tr')
            | Inr next_date \<Rightarrow> panchang_loop scrape err next_date end_date location acc' tr')
      else (Inr acc, tr))"
  by pat_completeness auto
termination
  by (relation "measure (\<lambda>(scrape, err, c, e, l, acc, tr). nat (e - c + 1))")
     (auto simp: add_one_day_def split: if_splits)

definition error_entry :: "env \<Rightarrow> date \<Rightarrow> dict" where
  "error_entry e d =
     [(''date'', strftime e d ''%Y-%m-%d''),
      (''error'', ''Failed to retrieve complete data for this day. Check backend logs for details.'')]"

definition error_entry_v1 :: "env \<Rightarrow> date \<Rightarrow> dict" where
  "error_entry_v1 e d =
     [(''date'', strftime e d ''%Y-%m-%d''), (''error'', ''Failed to retrieve data for this day.'')]"

definition missing_msg :: string where
  "missing_msg = ''Missing required parameters (start_date, end_date, location).''"

definition missing_msg_v1 :: string where
  "missing_msg_v1 = ''Missing required parameters''"

definition invalid_msg :: string where
  "invalid_msg = ''Invalid date format. Use THAT-MM-DD.''"

definition invalid_msg_v1 :: string where
  "invalid_msg_v1 = ''Invalid date format. Use YYYY-MM-DD.''"

text \<open>
  The handler after \<^verbatim>\<open>request.args.get\<close>: each argument is \<open>None\<close> when the query
  has no such parameter. \<open>truthy\<close> is Python's truth value of such an argument. An
  exception that leaves the handler is \<open>Inl\<close>; a returned response has a body and a status.
\<close>

fun truthy :: "string option \<Rightarrow> bool" where
  "truthy None = False"
| "truthy (Some s) = (s \<noteq> [])"

definition handler ::
  "(date \<Rightarrow> string \<Rightarrow> string \<times> dict option) \<Rightarrow> (date \<Rightarrow> dict) \<Rightarrow> string \<Rightarrow> string \<Rightarrow> env
     \<Rightarrow> string option \<Rightarrow> string option \<Rightarrow> string option \<Rightarrow> (exn + response) \<times> event list" where
  "handler scrape err missing invalid e start_date_str end_date_str location =
     (if \<not> (truthy start_date_str \<and> truthy end_date_str \<and> truthy location)
      then (Inr (ErrorJson missing, 400), [])
      else
        (case (start_date_str, end_date_str, location) of
           (Some s, Some t, Some l) \<Rightarrow>
             (case strptime e s of
                None \<Rightarrow> (Inr (ErrorJson invalid, 400), [Parse s])
              | Some start_date \<Rightarrow>
                  (case strptime e t of
                     None \<Rightarrow> (Inr (ErrorJson invalid, 400), [Parse s, Parse t])
                   | Some end_date \<Rightarrow>
                       (case panchang_loop scrape err start_date end_date l [] [Parse s, Parse t] of
                          (Inl x, tr) \<Rightarrow> (Inl x, tr)
                        | (Inr all_panchang_data, tr) \<Rightarrow>
                            (Inr (PanchangJson all_panchang_data, 200), tr))))
         | _ \<Rightarrow> (Inr (ErrorJson missing, 400), [])))"

definition get_panchang ::
  "env \<Rightarrow> string option \<Rightarrow> string option \<Rightarrow> string option \<Rightarrow> (exn + response) \<times> event list" where
  "get_panchang e = handler (scrape_panchang_for_day e) (error_entry e) missing_msg invalid_msg e"

definition get_panchang_v1 ::
  "env \<Rightarrow> string option \<Rightarrow> string option \<Rightarrow> string option \<Rightarrow> (exn + response) \<times> event list" where
  "get_panchang_v1 e =
     handler (scrape_panchang_for_day_v1 e) (error_entry_v1 e) missing_msg_v1 invalid_msg_v1 e"

section \<open>Properties in the words of the specification\<close>

text \<open>
  The output of a range: as many entries as the range has days, and the dates of the
  entries are the days from \<open>start_date\<close> to \<open>end_date\<close> in ascending order, each once.
\<close>

definition one_entry_per_day :: "env \<Rightarrow> date \<Rightarrow> date \<Rightarrow> dict list \<Rightarrow> bool" where
  "one_entry_per_day e start_date end_date days =
     (length days = nat (end_date - start_date + 1) \<and>
      map (\<lambda>day. map_of day ''date'') days
        = map (\<lambda>d. Some (strftime e d ''%Y-%m-%d'')) [start_date..end_date])"

text \<open>A request in which every parameter that is present but empty has been left out.\<close>

fun drop_empty :: "string option \<Rightarrow> string option" where
  "drop_empty None = None"
| "drop_empty (Some s) = (if s = [] then None else Some s)"

text \<open>
  The first label of an anchor, in document order, whose text contains the key when both
  are lower-cased; and the first row whose label contains the name of the row as it is.
\<close>

definition first_label :: "node \<Rightarrow> string \<Rightarrow> located option" where
  "first_label a key =
     List.find (\<lambda>k. str_in (lower key) (lower (joined_text (tag_of k)))) (find_all is_key a)"

definition first_row :: "located list \<Rightarrow> string \<Rightarrow> located option" where
  "first_row rows row_name =
     List.find (\<lambda>r. case find_in (has_class ''dpLabel'') (tag_of r) of
                      None \<Rightarrow> False
                    | Some lab \<Rightarrow> str_in row_name (get_text (tag_of lab))) rows"

text \<open>
  The normalized text of a label as the specification words it: all nested text
  fragments concatenated, whitespace-trimmed, lower-cased.
\<close>

definition spec_normalized :: "node \<Rightarrow> string" where
  "spec_normalized t = lower (strip (get_text t))"

section \<open>Example pages and environments\<close>

text \<open>Small pages on which the definitions above are run.\<close>

definition key_div :: "string \<Rightarrow> node" where
  "key_div k = Elem ''div'' [''dpTableKey''] [Text k]"

definition value_div :: "string \<Rightarrow> node" where
  "value_div v = Elem ''div'' [''dpTableValue''] [Text v]"

text \<open>The card with all six fields, inside \<^verbatim>\<open>html\<close> and \<^verbatim>\<open>body\<close>.\<close>

definition page_card :: "node list" where
  "page_card =
     [Elem ''html'' [] [Elem ''body'' []
        [Elem ''div'' [''dpPanchangCard'']
           [key_div ''Sunrise'', value_div '' 06:01 AM '', key_div ''Sunset'', value_div ''07:02 PM'',
            key_div ''Tithi'', value_div ''Pratipada'', key_div ''Nakshatra'', value_div ''Ashwini'',
            key_div ''Yoga'', value_div ''Siddha'', key_div ''Karana'', value_div ''Bava'']]]]"

text \<open>A card with nothing in it.\<close>

definition page_empty_card :: "node list" where
  "page_empty_card = [Elem ''div'' [''dpPanchangCard''] []]"

text \<open>
  No card; the label \<^verbatim>\<open>Sunrise\<close> is in a \<^verbatim>\<open>div\<close> with one label, which is in a
  \<^verbatim>\<open>div\<close> with five.
\<close>

definition page_nested :: "node list" where
  "page_nested =
     [Elem ''div'' [''outer'']
        [Elem ''div'' [''inner''] [key_div ''Sunrise'', value_div ''06:01 AM''],
         key_div ''Sunset'', value_div ''07:02 PM'', key_div ''Tithi'', value_div ''Pratipada'',
         key_div ''Nakshatra'', value_div ''Ashwini'', key_div ''Yoga'', value_div ''Siddha'']]"

text \<open>
  No card; the label \<^verbatim>\<open>Sunrise\<close> is in a \<^verbatim>\<open>span\<close> inside a \<^verbatim>\<open>div\<close> that has
  two labels.
\<close>

definition page_small :: "node list" where
  "page_small =
     [Elem ''div'' [''box'']
        [Elem ''span'' [] [key_div ''Sunrise'', value_div ''06:01 AM''],
         key_div ''Tithi'', value_div ''Pratipada'']]"

text \<open>No card; the label \<^verbatim>\<open>Sunrise\<close> and its value are directly in \<^verbatim>\<open>body\<close>.\<close>

definition page_orphan :: "node list" where
  "page_orphan =
     [Elem ''html'' [] [Elem ''body'' [] [key_div ''Sunrise'', value_div ''06:01 AM'']]]"

text \<open>No card and no label \<^verbatim>\<open>Sunrise\<close>.\<close>

definition page_other :: "node list" where
  "page_other = [Elem ''html'' [] [Elem ''body'' [] [Elem ''div'' [] [Text ''Access denied'']]]]"

text \<open>A card in which the label \<^verbatim>\<open>Tithi\<close> is the last element, with no value after it.\<close>

definition page_no_value :: "node list" where
  "page_no_value =
     [Elem ''div'' [''dpPanchangCard'']
        [key_div ''Sunrise'', value_div ''06:01 AM'', key_div ''Tithi'']]"

text \<open>
  A card in which the label \<^verbatim>\<open>Tithi\<close> is followed at once by the next label and only
  then by that label's value.
\<close>

definition page_gap :: "node list" where
  "page_gap =
     [Elem ''div'' [''dpPanchangCard'']
        [key_div ''Tithi'', key_div ''Nakshatra'', value_div ''Ashwini'']]"

text \<open>A card whose label \<^verbatim>\<open>Nakshatra\<close> is written in two pieces, one of them in bold.\<close>

definition split_label :: node where
  "split_label = Elem ''div'' [''dpTableKey''] [Text ''Nak'', Elem ''b'' [] [Text ''shatra'']]"

definition page_split :: "node list" where
  "page_split = [Elem ''div'' [''dpPanchangCard''] [split_label, value_div ''Ashwini'']]"

text \<open>
  A card whose label \<^verbatim>\<open>Tithi\<close> has a \<^verbatim>\<open>style\<close> tag in it, and a card inside a
  \<^verbatim>\<open>template\<close> tag, whose strings the parser gives the class \<^verbatim>\<open>TemplateString\<close>.
\<close>

definition styled_label :: node where
  "styled_label = Elem ''div'' [''dpTableKey''] [Text ''Tithi'', Elem ''style'' [] [Text ''Yoga'']]"

definition page_styled :: "node list" where
  "page_styled = [Elem ''div'' [''dpPanchangCard''] [styled_label, value_div ''Pratipada'']]"

definition page_template :: "node list" where
  "page_template =
     [Elem ''template'' []
        [Elem ''div'' [''dpPanchangCard'']
           [Elem ''div'' [''dpTableKey''] [Str TemplateString ''Sunrise''],
            Elem ''div'' [''dpTableValue''] [Str TemplateString ''06:01 AM'']]]]"

text \<open>Pages of the shape \<^verbatim>\<open>src/app.py\<close> looks for: a table of rows with a label and a value.\<close>

definition row_div :: "string \<Rightarrow> node list \<Rightarrow> node" where
  "row_div label rest = Elem ''div'' [''dpRow''] (Elem ''span'' [''dpLabel''] [Text label] # rest)"

definition value_span :: "string \<Rightarrow> node" where
  "value_span v = Elem ''span'' [''dpValue''] [Text v]"

definition page_rows :: "node list" where
  "page_rows =
     [Elem ''div'' [''dpPanchang'']
        [row_div ''Sunrise'' [value_span '' 06:01 AM ''], row_div ''Tithi'' []]]"

text \<open>A row whose label \<^verbatim>\<open>Sunrise\<close> has a \<^verbatim>\<open>style\<close> tag in the middle.\<close>

definition page_rows_styled :: "node list" where
  "page_rows_styled =
     [Elem ''div'' [''dpPanchang'']
        [Elem ''div'' [''dpRow'']
           [Elem ''span'' [''dpLabel''] [Text ''Sun'', Elem ''style'' [] [Text ''x''], Text ''rise''],
            value_span ''06:01 AM'']]]"

definition page_rows_upper :: "node list" where
  "page_rows_upper =
     [Elem ''div'' [''dpPanchang''] [row_div ''SUNRISE'' [value_span ''06:01 AM'']]]"

text \<open>
  An environment that knows three days of July 2025 and the last day of the calendar,
  answers every request with the page \<open>doc\<close> (or fails every request), and raises in the
  per-key helper for the keys in \<open>faulty\<close>.
\<close>

definition demo_strptime :: "string \<Rightarrow> date option" where
  "demo_strptime s =
     map_of [(''2025-07-01'', 739433), (''2025-07-03'', 739435), (''9999-12-31'', 3652059)] s"

definition demo_strftime :: "date \<Rightarrow> string \<Rightarrow> string" where
  "demo_strftime d fmt =
     (case map_of [(739433, (''2025-07-01'', ''01/07/2025'')), (739434, (''2025-07-02'', ''02/07/2025'')),
                   (739435, (''2025-07-03'', ''03/07/2025'')), (3652059, (''9999-12-31'', ''31/12/9999''))] d of
        None \<Rightarrow> []
      | Some (ymd, dmy) \<Rightarrow> if fmt = ''%Y-%m-%d'' then ymd else dmy)"

definition demo_env :: "node list option \<Rightarrow> string list \<Rightarrow> env" where
  "demo_env doc faulty =
     \<lparr>strptime = demo_strptime, strftime = demo_strftime, http_get = (\<lambda>url. doc),
      raises = (\<lambda>key. key \<in> set faulty)\<rparr>"

section \<open>Searching the document\<close>

lemma container_text_is_left_out:
  assumes "string_container n = Some k" and "string_container m = None"
  shows "strings_of (Elem m cs (before @ [Elem n cs' [Text s]] @ after))
           = strings_of (Elem m cs (before @ after))"
proof -
  have "k \<noteq> NavigableString" and "k \<noteq> CData"
    using assms(1) by (auto simp: string_container_def split: if_splits)
  then show ?thesis using assms by simp
qed

lemma plain_text_is_kept:
  "string_container m = None \<Longrightarrow> strings_of (Elem m cs [Text s]) = [s]"
  by simp

lemma str_in_sublist: "str_in a b = sublist a b"
  by (induction b) (simp_all add: sublist_Cons_right)

lemma nearest_div:
  "map_option fst (find_parent_div anc) = (case filter is_div anc of [] \<Rightarrow> None | a # r \<Rightarrow> Some a)"
  by (induction anc) auto

lemma climb_find:
  "climb (find_parent_div anc) = List.find (\<lambda>a. 5 \<le> key_count a) (filter is_div anc)"
  by (induction anc) auto

lemma climb_enough: "climb cur = Some p \<Longrightarrow> 5 \<le> key_count p"
  by (induction cur rule: climb.induct) (auto split: if_splits)

lemma scan_keys_first_label:
  "scan_keys key (find_all is_key a) =
     (case first_label a key of
        None \<Rightarrow> not_found
      | Some k \<Rightarrow> (case find_next_sibling is_value k of Some v \<Rightarrow> joined_text v | None \<Rightarrow> not_found))"
proof -
  have "scan_keys key ks =
     (case List.find (\<lambda>k. str_in (lower key) (lower (joined_text (tag_of k)))) ks of
        None \<Rightarrow> not_found
      | Some k \<Rightarrow> (case find_next_sibling is_value k of Some v \<Rightarrow> joined_text v | None \<Rightarrow> not_found))" for ks
    by (induction ks) simp_all
  then show ?thesis by (simp add: first_label_def)
qed

lemma scan_rows_first_row:
  "scan_rows key rows =
     (case first_row rows key of
        None \<Rightarrow> not_found
      | Some r \<Rightarrow> (case find_in (has_class ''dpValue'') (tag_of r) of
                    Some v \<Rightarrow> strip (get_text (tag_of v))
                  | None \<Rightarrow> not_found))"
  unfolding first_row_def by (induction rows) (simp_all split: option.splits)

lemma resolve_anchor_tiers:
  "resolve_anchor doc =
     (case soup_find is_card doc of
        Some c \<Rightarrow> Some (tag_of c)
      | None \<Rightarrow>
          (case soup_find is_sunrise_key doc of
             None \<Rightarrow> None
           | Some s \<Rightarrow>
               (case List.find (\<lambda>a. 5 \<le> key_count a) (filter is_div (ancestors_of s)) of
                  Some a \<Rightarrow> Some a
                | None \<Rightarrow> (case filter is_div (ancestors_of s) of [] \<Rightarrow> None | a # r \<Rightarrow> Some a))))"
  by (simp add: resolve_anchor_def locate_card_def climb_find nearest_div split: option.splits)

lemma extract_day_anchor:
  "resolve_anchor doc = Some a \<Longrightarrow>
   extract_day e doc d =
     Inr (Some ((''date'', strftime e d ''%Y-%m-%d'')
                  # map (\<lambda>(field, key). (field, get_value_from_table e a key)) fields))"
  by (auto simp: resolve_anchor_def extract_day_def split: option.splits)

lemma extract_day_no_anchor:
  "resolve_anchor doc = None \<Longrightarrow> extract_day e doc d = Inr None \<or> extract_day e doc d = Inl NameError"
  by (auto simp: resolve_anchor_def extract_day_def split: option.splits)

lemma scrape_anchor:
  "http_get e (url_of e d) = Some doc \<Longrightarrow> resolve_anchor doc = Some a \<Longrightarrow>
   snd (scrape_panchang_for_day e d l) =
     Some ((''date'', strftime e d ''%Y-%m-%d'')
             # map (\<lambda>(field, key). (field, get_value_from_table e a key)) fields)"
  by (simp add: scrape_panchang_for_day_def extract_day_anchor)

lemma scrape_no_anchor:
  "http_get e (url_of e d) = Some doc \<Longrightarrow> resolve_anchor doc = None \<Longrightarrow>
   snd (scrape_panchang_for_day e d l) = None"
  using extract_day_no_anchor [of doc e d] by (auto simp: scrape_panchang_for_day_def)

lemma assign_all_rows:
  "assign_all (get_value_from_row e rows) fs =
     (if \<exists>k \<in> snd ` set fs. raises e k then Inl LookupFault
      else Inr (map (\<lambda>(field, key). (field, scan_rows key rows)) fs))"
proof (induction fs)
  case Nil
  show ?case by simp
next
  case (Cons f fs)
  obtain field key where f: "f = (field, key)" by (cases f)
  show ?case
  proof (cases "raises e key")
    case True
    then show ?thesis by (simp add: f get_value_from_row_def)
  next
    case False
    then show ?thesis using Cons.IH by (simp add: f get_value_from_row_def)
  qed
qed

section \<open>The loop over the days\<close>

declare panchang_loop.simps [simp del]

lemma panchang_loop_closed:
  "end_date < date_max \<Longrightarrow>
   panchang_loop scrape err c end_date l acc tr =
     (Inr (acc @ map (\<lambda>d. appended (snd (scrape d l)) (err d)) [c..end_date]),
      tr @ map (\<lambda>d. Fetch (fst (scrape d l))) [c..end_date])"
proof (induction scrape err c end_date l acc tr rule: panchang_loop.induct)
  case (1 scrape err c end_date l acc tr)
  show ?case
  proof (cases "c \<le> end_date")
    case False
    then show ?thesis by (simp add: panchang_loop.simps)
  next
    case True
    with "1.prems" have nxt: "add_one_day c = Inr (c + 1)"
      by (simp add: add_one_day_def)
    obtain url day where sc: "scrape c l = (url, day)" by (cases "scrape c l")
    have "panchang_loop scrape err c end_date l acc tr =
          panchang_loop scrape err (c + 1) end_date l (acc @ [appended day (err c)]) (tr @ [Fetch url])"
      using True nxt sc by (subst panchang_loop.simps) simp
    also have "\<dots> = (Inr ((acc @ [appended day (err c)]) @ map (\<lambda>d. appended (snd (scrape d l)) (err d)) [c + 1..end_date]),
        (tr @ [Fetch url]) @ map (\<lambda>d. Fetch (fst (scrape d l))) [c + 1..end_date])"
      using "1.IH" [OF True sc [symmetric] refl refl refl nxt "1.prems"] .
    finally show ?thesis using True sc by (simp add: upto_rec1 [of c end_date])
  qed
qed

lemma panchang_loop_location:
  "(\<And>d. scrape d l1 = scrape d l2) \<Longrightarrow>
   panchang_loop scrape err c end_date l1 acc tr = panchang_loop scrape err c end_date l2 acc tr"
proof (induction scrape err c end_date l1 acc tr rule: panchang_loop.induct)
  case (1 scrape err c end_date l1 acc tr)
  show ?case
  proof (cases "c \<le> end_date")
    case False
    then show ?thesis by (simp add: panchang_loop.simps)
  next
    case True
    obtain url day where sc: "scrape c l1 = (url, day)" by (cases "scrape c l1")
    then have sc2: "scrape c l2 = (url, day)" using "1.prems" by simp
    show ?thesis
    proof (cases "add_one_day c")
      case (Inl x)
      then show ?thesis using True sc sc2
        by (simp add: panchang_loop.simps [of scrape err c])
    next
      case (Inr nxt)
      have "panchang_loop scrape err nxt end_date l1 (acc @ [appended day (err c)]) (tr @ [Fetch url])
          = panchang_loop scrape err nxt end_date l2 (acc @ [appended day (err c)]) (tr @ [Fetch url])"
        using "1.IH" [OF True sc [symmetric] refl refl refl Inr "1.prems"] .
      then show ?thesis using True sc sc2 Inr
        by (simp add: panchang_loop.simps [of scrape err c])
    qed
  qed
qed

lemma panchang_loop_overflow:
  "c \<le> end_date \<Longrightarrow> date_max \<le> end_date \<Longrightarrow> c \<le> date_max \<Longrightarrow>
   fst (panchang_loop scrape err c end_date l acc tr) = Inl OverflowError"
proof (induction scrape err c end_date l acc tr rule: panchang_loop.induct)
  case (1 scrape err c end_date l acc tr)
  obtain url day where sc: "scrape c l = (url, day)" by (cases "scrape c l")
  show ?case
  proof (cases "c = date_max")
    case True
    then have "add_one_day c = Inl OverflowError" by (simp add: add_one_day_def)
    then show ?thesis using "1.prems" sc by (simp add: panchang_loop.simps [of scrape err c])
  next
    case False
    with "1.prems" have nxt: "add_one_day c = Inr (c + 1)" by (simp add: add_one_day_def)
    have "fst (panchang_loop scrape err (c + 1) end_date l (acc @ [appended day (err c)]) (tr @ [Fetch url])) = Inl OverflowError"
      using "1.IH" [OF "1.prems"(1) sc [symmetric] refl refl refl nxt] "1.prems" False by simp
    then show ?thesis using "1.prems" sc nxt by (simp add: panchang_loop.simps [of scrape err c])
  qed
qed


lemma appended_date:
  "map_of err ''date'' = Some v \<Longrightarrow> (\<And>data. day = Some data \<Longrightarrow> data \<noteq> [] \<Longrightarrow> map_of data ''date'' = Some v)
   \<Longrightarrow> map_of (appended day err) ''date'' = Some v"
  by (cases day) (auto simp: appended_def)

lemma scrape_date:
  "snd (scrape_panchang_for_day e d l) = Some data \<Longrightarrow> map_of data ''date'' = Some (strftime e d ''%Y-%m-%d'')"
  by (auto simp: scrape_panchang_for_day_def Let_def extract_day_def
           split: option.splits sum.splits prod.splits)

lemma scrape_v1_date:
  "snd (scrape_panchang_for_day_v1 e d l) = Some data \<Longrightarrow> map_of data ''date'' = Some (strftime e d ''%Y-%m-%d'')"
  by (auto simp: scrape_panchang_for_day_v1_def Let_def extract_day_v1_def
           split: option.splits sum.splits prod.splits)

lemma handler_in_range:
  assumes "strptime e s = Some start_date" and "strptime e t = Some end_date"
    and "s \<noteq> []" and "t \<noteq> []" and "l \<noteq> []" and "end_date < date_max"
  shows "handler scrape err missing invalid e (Some s) (Some t) (Some l) =
           (Inr (PanchangJson (map (\<lambda>d. appended (snd (scrape d l)) (err d)) [start_date..end_date]), 200),
            [Parse s, Parse t] @ map (\<lambda>d. Fetch (fst (scrape d l))) [start_date..end_date])"
  using assms by (simp add: handler_def panchang_loop_closed)

section \<open>The range of days\<close>

text \<open>
  Claim C1, as amended. When both dates parse and the end date is before 9999-12-31, the
  last date Python can hold, the handler of either file answers with status 200 and a list
  that has one entry for every day from the start date to the end date, in ascending
  order and with no day left out or repeated; its length is the number of days of the
  range, and it is empty when the start date is after the end date.
\<close>

theorem range_has_one_entry_per_day:
  assumes "strptime e s = Some start_date" and "strptime e t = Some end_date"
    and "s \<noteq> []" and "t \<noteq> []" and "l \<noteq> []" and "end_date < date_max"
  shows "(\<exists>days tr. get_panchang e (Some s) (Some t) (Some l) = (Inr (PanchangJson days, 200), tr)
            \<and> one_entry_per_day e start_date end_date days \<and> (end_date < start_date \<longrightarrow> days = []))
       \<and> (\<exists>days tr. get_panchang_v1 e (Some s) (Some t) (Some l) = (Inr (PanchangJson days, 200), tr)
            \<and> one_entry_per_day e start_date end_date days \<and> (end_date < start_date \<longrightarrow> days = []))"
proof -
  have a: "map_of (appended (snd (scrape_panchang_for_day e d l)) (error_entry e d)) ''date''
             = Some (strftime e d ''%Y-%m-%d'')" for d
    by (rule appended_date) (simp_all add: error_entry_def scrape_date)
  have b: "map_of (appended (snd (scrape_panchang_for_day_v1 e d l)) (error_entry_v1 e d)) ''date''
             = Some (strftime e d ''%Y-%m-%d'')" for d
    by (rule appended_date) (simp_all add: error_entry_v1_def scrape_v1_date)
  show ?thesis
    unfolding get_panchang_def get_panchang_v1_def handler_in_range [OF assms]
    by (simp add: one_entry_per_day_def a b comp_def)
qed

theorem range_has_one_entry_per_day_witness:
  "(\<exists>days tr. get_panchang (demo_env (Some page_card) []) (Some ''2025-07-01'') (Some ''2025-07-03'') (Some ''New Delhi'')
        = (Inr (PanchangJson days, 200), tr)
      \<and> one_entry_per_day (demo_env (Some page_card) []) 739433 739435 days \<and> ((739435::int) < 739433 \<longrightarrow> days = []))
   \<and> (\<exists>days tr. get_panchang_v1 (demo_env (Some page_card) []) (Some ''2025-07-01'') (Some ''2025-07-03'') (Some ''New Delhi'')
        = (Inr (PanchangJson days, 200), tr)
      \<and> one_entry_per_day (demo_env (Some page_card) []) 739433 739435 days \<and> ((739435::int) < 739433 \<longrightarrow> days = []))"
proof -
  have s: "strptime (demo_env (Some page_card) []) ''2025-07-01'' = Some 739433"
    by (simp add: demo_env_def demo_strptime_def)
  have t: "strptime (demo_env (Some page_card) []) ''2025-07-03'' = Some 739435"
    by (simp add: demo_env_def demo_strptime_def)
  have m: "(739435::int) < date_max" by (simp add: date_max_def)
  show ?thesis
    by (rule range_has_one_entry_per_day [OF s t _ _ _ m]) simp_all
qed

text \<open>
  Claim C1 as stated fails on the last day of the calendar: after the entry for 9999-12-31
  the loop adds one day to \<^verbatim>\<open>current_date\<close>, which raises \<^verbatim>\<open>OverflowError\<close>, and
  the handler returns no list.
\<close>

theorem last_day_overflows:
  "demo_strptime ''9999-12-31'' = Some date_max
   \<and> fst (get_panchang (demo_env None []) (Some ''9999-12-31'') (Some ''9999-12-31'') (Some ''New Delhi''))
       = Inl OverflowError
   \<and> fst (get_panchang_v1 (demo_env None []) (Some ''9999-12-31'') (Some ''9999-12-31'') (Some ''New Delhi''))
       = Inl OverflowError"
  by (simp add: demo_strptime_def date_max_def get_panchang_def get_panchang_v1_def handler_def demo_env_def
      panchang_loop.simps [of _ _ 3652059] add_one_day_def split: prod.splits)

section \<open>The handler and its parameters\<close>

lemma handler_location:
  assumes "\<And>d. scrape d l1 = scrape d l2" and "l1 \<noteq> []" and "l2 \<noteq> []"
  shows "handler scrape err missing invalid e sa ea (Some l1)
       = handler scrape err missing invalid e sa ea (Some l2)"
  using assms(2,3) panchang_loop_location [of scrape l1 l2, OF assms(1)]
  by (cases sa; cases ea) (simp_all add: handler_def split: option.splits)

lemma handler_rejects:
  assumes "sa = None \<or> ea = None \<or> la = None
           \<or> (\<exists>s. sa = Some s \<and> strptime e s = None) \<or> (\<exists>t. ea = Some t \<and> strptime e t = None)"
  shows "\<exists>msg tr. handler scrape err missing invalid e sa ea la = (Inr (ErrorJson msg, 400), tr)
           \<and> msg \<in> {missing, invalid} \<and> \<not> list_ex is_fetch tr"
  using assms
  by (cases sa; cases ea; cases la) (auto simp: handler_def is_fetch_def split: option.splits)

lemma handler_empty:
  assumes "sa = Some [] \<or> ea = Some [] \<or> la = Some []"
  shows "handler scrape err missing invalid e sa ea la = (Inr (ErrorJson missing, 400), [])"
  using assms by (auto simp: handler_def)

lemma handler_drop_empty:
  "handler scrape err missing invalid e sa ea la
     = handler scrape err missing invalid e (drop_empty sa) (drop_empty ea) (drop_empty la)"
  by (cases sa; cases ea; cases la) (simp_all add: handler_def)

text \<open>
  Claim C8. The location does not influence the result. In both files the function that
  scrapes one day requests the same URL and returns the same result whatever the location
  string is, the loop over the days returns the same list and makes the same requests, and
  so does the handler for any two locations that are not empty.
\<close>

theorem location_is_inert:
  "scrape_panchang_for_day e d l1 = scrape_panchang_for_day e d l2
   \<and> scrape_panchang_for_day_v1 e d l1 = scrape_panchang_for_day_v1 e d l2
   \<and> panchang_loop (scrape_panchang_for_day e) err c end_date l1 acc tr
       = panchang_loop (scrape_panchang_for_day e) err c end_date l2 acc tr
   \<and> panchang_loop (scrape_panchang_for_day_v1 e) err c end_date l1 acc tr
       = panchang_loop (scrape_panchang_for_day_v1 e) err c end_date l2 acc tr
   \<and> (l1 \<noteq> [] \<and> l2 \<noteq> [] \<longrightarrow>
        get_panchang e sa ea (Some l1) = get_panchang e sa ea (Some l2)
        \<and> get_panchang_v1 e sa ea (Some l1) = get_panchang_v1 e sa ea (Some l2))"
proof -
  have a: "scrape_panchang_for_day e d l1 = scrape_panchang_for_day e d l2" for d
    by (simp add: scrape_panchang_for_day_def)
  have b: "scrape_panchang_for_day_v1 e d l1 = scrape_panchang_for_day_v1 e d l2" for d
    by (simp add: scrape_panchang_for_day_v1_def)
  show ?thesis
    using a b panchang_loop_location [of "scrape_panchang_for_day e" l1 l2, OF a]
      panchang_loop_location [of "scrape_panchang_for_day_v1 e" l1 l2, OF b]
      handler_location [of "scrape_panchang_for_day e" l1 l2, OF a]
      handler_location [of "scrape_panchang_for_day_v1 e" l1 l2, OF b]
    by (simp add: get_panchang_def get_panchang_v1_def)
qed

theorem location_is_inert_witness:
  "get_panchang (demo_env (Some page_card) []) (Some ''2025-07-01'') (Some ''2025-07-03'') (Some ''New Delhi'')
     = get_panchang (demo_env (Some page_card) []) (Some ''2025-07-01'') (Some ''2025-07-03'') (Some ''Mumbai'')
   \<and> get_panchang_v1 (demo_env (Some page_rows) []) (Some ''2025-07-01'') (Some ''2025-07-03'') (Some ''New Delhi'')
     = get_panchang_v1 (demo_env (Some page_rows) []) (Some ''2025-07-01'') (Some ''2025-07-03'') (Some ''Mumbai'')"
  using location_is_inert [of "demo_env (Some page_card) []" _ "''New Delhi''" "''Mumbai''" _ _ _ _ _
      "Some ''2025-07-01''" "Some ''2025-07-03''"]
    location_is_inert [of "demo_env (Some page_rows) []" _ "''New Delhi''" "''Mumbai''" _ _ _ _ _
      "Some ''2025-07-01''" "Some ''2025-07-03''"]
  by simp

text \<open>
  Claim C9. A request that lacks one of \<^verbatim>\<open>start_date\<close>, \<^verbatim>\<open>end_date\<close> and
  \<^verbatim>\<open>location\<close>, or whose start or end date \<^verbatim>\<open>strptime\<close> rejects, is answered in
  both files with status 400 and one of the two error messages, and no page is requested.
\<close>

theorem bad_request_is_rejected_before_any_fetch:
  assumes "sa = None \<or> ea = None \<or> la = None
           \<or> (\<exists>s. sa = Some s \<and> strptime e s = None) \<or> (\<exists>t. ea = Some t \<and> strptime e t = None)"
  shows "(\<exists>msg tr. get_panchang e sa ea la = (Inr (ErrorJson msg, 400), tr)
            \<and> msg \<in> {missing_msg, invalid_msg} \<and> \<not> list_ex is_fetch tr)
       \<and> (\<exists>msg tr. get_panchang_v1 e sa ea la = (Inr (ErrorJson msg, 400), tr)
            \<and> msg \<in> {missing_msg_v1, invalid_msg_v1} \<and> \<not> list_ex is_fetch tr)"
  unfolding get_panchang_def get_panchang_v1_def
  using handler_rejects [OF assms] by blast

theorem bad_request_is_rejected_before_any_fetch_witness:
  "get_panchang (demo_env (Some page_card) []) (Some ''2025-07-01'') (Some ''2025-07-03'') None
     = (Inr (ErrorJson missing_msg, 400), [])
   \<and> get_panchang (demo_env (Some page_card) []) (Some ''2025-07-01'') (Some ''03.07.2025'') (Some ''New Delhi'')
     = (Inr (ErrorJson invalid_msg, 400), [Parse ''2025-07-01'', Parse ''03.07.2025''])
   \<and> get_panchang_v1 (demo_env (Some page_card) []) (Some ''July 1st'') (Some ''2025-07-03'') (Some ''New Delhi'')
     = (Inr (ErrorJson invalid_msg_v1, 400), [Parse ''July 1st''])"
proof -
  let ?e = "demo_env (Some page_card) []"
  have p: "strptime ?e ''03.07.2025'' = None" "strptime ?e ''July 1st'' = None"
    "strptime ?e ''2025-07-01'' = Some 739433"
    by (simp_all add: demo_env_def demo_strptime_def)
  have "\<exists>msg tr. get_panchang ?e (Some ''2025-07-01'') (Some ''2025-07-03'') None = (Inr (ErrorJson msg, 400), tr)
          \<and> msg \<in> {missing_msg, invalid_msg} \<and> \<not> list_ex is_fetch tr"
    using bad_request_is_rejected_before_any_fetch [of "Some ''2025-07-01''" "Some ''2025-07-03''" None ?e]
    by simp
  moreover have "\<exists>msg tr. get_panchang ?e (Some ''2025-07-01'') (Some ''03.07.2025'') (Some ''New Delhi'') = (Inr (ErrorJson msg, 400), tr)
          \<and> msg \<in> {missing_msg, invalid_msg} \<and> \<not> list_ex is_fetch tr"
    using bad_request_is_rejected_before_any_fetch
      [of "Some ''2025-07-01''" "Some ''03.07.2025''" "Some ''New Delhi''" ?e] p
    by simp
  moreover have "\<exists>msg tr. get_panchang_v1 ?e (Some ''July 1st'') (Some ''2025-07-03'') (Some ''New Delhi'') = (Inr (ErrorJson msg, 400), tr)
          \<and> msg \<in> {missing_msg_v1, invalid_msg_v1} \<and> \<not> list_ex is_fetch tr"
    using bad_request_is_rejected_before_any_fetch
      [of "Some ''July 1st''" "Some ''2025-07-03''" "Some ''New Delhi''" ?e] p
    by simp
  ultimately show ?thesis
    using p by (auto simp: get_panchang_def get_panchang_v1_def handler_def)
qed

text \<open>
  Claim C10. A parameter that is present but empty is treated as a missing one: the
  handler of either file answers a request as it answers the request with the empty
  parameters left out, and when one of the three is empty the answer is the
  missing-parameter error with status 400, before any date is parsed or any page requested.
\<close>

theorem empty_parameter_is_missing:
  "get_panchang e sa ea la = get_panchang e (drop_empty sa) (drop_empty ea) (drop_empty la)
   \<and> get_panchang_v1 e sa ea la = get_panchang_v1 e (drop_empty sa) (drop_empty ea) (drop_empty la)
   \<and> (sa = Some [] \<or> ea = Some [] \<or> la = Some [] \<longrightarrow>
        get_panchang e sa ea la = (Inr (ErrorJson missing_msg, 400), [])
        \<and> get_panchang_v1 e sa ea la = (Inr (ErrorJson missing_msg_v1, 400), []))"
  unfolding get_panchang_def get_panchang_v1_def
  using handler_drop_empty handler_empty by blast

theorem empty_parameter_is_missing_witness:
  "get_panchang (demo_env (Some page_card) []) (Some ''2025-07-01'') (Some ''2025-07-03'') (Some [])
     = get_panchang (demo_env (Some page_card) []) (Some ''2025-07-01'') (Some ''2025-07-03'') None
   \<and> get_panchang (demo_env (Some page_card) []) (Some ''2025-07-01'') (Some ''2025-07-03'') (Some [])
     = (Inr (ErrorJson missing_msg, 400), [])
   \<and> get_panchang_v1 (demo_env (Some page_card) []) (Some []) (Some ''2025-07-03'') (Some ''New Delhi'')
     = (Inr (ErrorJson missing_msg_v1, 400), [])"
proof -
  let ?e = "demo_env (Some page_card) []"
  have "get_panchang ?e (Some ''2025-07-01'') (Some ''2025-07-03'') (Some [])
          = get_panchang ?e (Some ''2025-07-01'') (Some ''2025-07-03'') None
        \<and> get_panchang ?e (Some ''2025-07-01'') (Some ''2025-07-03'') (Some [])
          = (Inr (ErrorJson missing_msg, 400), [])"
    using empty_parameter_is_missing [of ?e "Some ''2025-07-01''" "Some ''2025-07-03''" "Some []"]
    by (simp; metis)
  moreover have "get_panchang_v1 ?e (Some []) (Some ''2025-07-03'') (Some ''New Delhi'')
          = (Inr (ErrorJson missing_msg_v1, 400), [])"
    using empty_parameter_is_missing [of ?e "Some []" "Some ''2025-07-03''" "Some ''New Delhi''"]
    by (simp; metis)
  ultimately show ?thesis by blast
qed

section \<open>The anchor and the record of a day\<close>

text \<open>
  Claim C3. In \<^verbatim>\<open>src/api/app.py\<close> a day fails only when no anchor is resolved. For
  every page on which an anchor is resolved, by whichever branch, the extraction returns
  a record with the date and the six fields, each the value that
  \<^verbatim>\<open>get_value_from_table\<close> gives for its key (a text or \<^verbatim>\<open>Not Found\<close>), whatever
  the helper meets on the way; and when the page was fetched, the day is reported as failed
  exactly when no anchor is resolved.
\<close>

theorem anchor_gives_record:
  "(resolve_anchor doc = None \<longrightarrow>
      extract_day e doc d = Inr None \<or> extract_day e doc d = Inl NameError)
   \<and> (\<forall>a. resolve_anchor doc = Some a \<longrightarrow>
        extract_day e doc d =
          Inr (Some [(''date'', strftime e d ''%Y-%m-%d''),
                     (''sunrise'', get_value_from_table e a ''Sunrise''),
                     (''sunset'', get_value_from_table e a ''Sunset''),
                     (''tithi'', get_value_from_table e a ''Tithi''),
                     (''nakshatra'', get_value_from_table e a ''Nakshatra''),
                     (''yoga'', get_value_from_table e a ''Yoga''),
                     (''karana'', get_value_from_table e a ''Karana'')]))
   \<and> (http_get e (url_of e d) = Some doc \<longrightarrow>
        (snd (scrape_panchang_for_day e d l) = None \<longleftrightarrow> resolve_anchor doc = None)
        \<and> (\<forall>a. resolve_anchor doc = Some a \<longrightarrow>
             snd (scrape_panchang_for_day e d l) =
               Some [(''date'', strftime e d ''%Y-%m-%d''),
                     (''sunrise'', get_value_from_table e a ''Sunrise''),
                     (''sunset'', get_value_from_table e a ''Sunset''),
                     (''tithi'', get_value_from_table e a ''Tithi''),
                     (''nakshatra'', get_value_from_table e a ''Nakshatra''),
                     (''yoga'', get_value_from_table e a ''Yoga''),
                     (''karana'', get_value_from_table e a ''Karana'')]))"
proof (intro conjI impI allI)
  assume "resolve_anchor doc = None"
  then show "extract_day e doc d = Inr None \<or> extract_day e doc d = Inl NameError"
    by (rule extract_day_no_anchor)
next
  fix a assume "resolve_anchor doc = Some a"
  then show "extract_day e doc d =
          Inr (Some [(''date'', strftime e d ''%Y-%m-%d''),
                     (''sunrise'', get_value_from_table e a ''Sunrise''),
                     (''sunset'', get_value_from_table e a ''Sunset''),
                     (''tithi'', get_value_from_table e a ''Tithi''),
                     (''nakshatra'', get_value_from_table e a ''Nakshatra''),
                     (''yoga'', get_value_from_table e a ''Yoga''),
                     (''karana'', get_value_from_table e a ''Karana'')])"
    by (simp add: extract_day_anchor fields_def)
next
  assume h: "http_get e (url_of e d) = Some doc"
  show "snd (scrape_panchang_for_day e d l) = None \<longleftrightarrow> resolve_anchor doc = None"
  proof (cases "resolve_anchor doc")
    case None
    then show ?thesis using scrape_no_anchor [OF h] by simp
  next
    case (Some a)
    then show ?thesis using scrape_anchor [OF h] by simp
  qed
next
  fix a assume "http_get e (url_of e d) = Some doc" and "resolve_anchor doc = Some a"
  then show "snd (scrape_panchang_for_day e d l) =
               Some [(''date'', strftime e d ''%Y-%m-%d''),
                     (''sunrise'', get_value_from_table e a ''Sunrise''),
                     (''sunset'', get_value_from_table e a ''Sunset''),
                     (''tithi'', get_value_from_table e a ''Tithi''),
                     (''nakshatra'', get_value_from_table e a ''Nakshatra''),
                     (''yoga'', get_value_from_table e a ''Yoga''),
                     (''karana'', get_value_from_table e a ''Karana'')]"
    by (simp add: scrape_anchor fields_def)
qed

theorem anchor_gives_record_witness:
  "snd (scrape_panchang_for_day (demo_env (Some page_empty_card) []) 739433 ''New Delhi'') =
     Some [(''date'', ''2025-07-01''), (''sunrise'', ''Not Found''), (''sunset'', ''Not Found''),
           (''tithi'', ''Not Found''), (''nakshatra'', ''Not Found''), (''yoga'', ''Not Found''),
           (''karana'', ''Not Found'')]
   \<and> snd (scrape_panchang_for_day (demo_env (Some page_other) []) 739433 ''New Delhi'') = None"
proof -
  let ?a = "Elem ''div'' [''dpPanchangCard''] []"
  let ?e = "demo_env (Some page_empty_card) []"
  let ?f = "demo_env (Some page_other) []"
  have r: "resolve_anchor page_empty_card = Some ?a" by code_simp
  have h: "http_get ?e (url_of ?e 739433) = Some page_empty_card" by (simp add: demo_env_def)
  have v: "get_value_from_table ?e ?a key = ''Not Found''" for key
    by (simp add: get_value_from_table_def table_lookup_def demo_env_def find_all_def not_found_def)
  have d: "strftime ?e 739433 ''%Y-%m-%d'' = ''2025-07-01''"
    by (simp add: demo_env_def demo_strftime_def)
  have 1: "snd (scrape_panchang_for_day ?e 739433 ''New Delhi'') =
     Some [(''date'', ''2025-07-01''), (''sunrise'', ''Not Found''), (''sunset'', ''Not Found''),
           (''tithi'', ''Not Found''), (''nakshatra'', ''Not Found''), (''yoga'', ''Not Found''),
           (''karana'', ''Not Found'')]"
    using anchor_gives_record [of page_empty_card ?e 739433 "''New Delhi''"] r h
    by (simp add: v d)
  have r2: "resolve_anchor page_other = None" by code_simp
  have h2: "http_get ?f (url_of ?f 739433) = Some page_other" by (simp add: demo_env_def)
  have 2: "snd (scrape_panchang_for_day ?f 739433 ''New Delhi'') = None"
    using anchor_gives_record [of page_other ?f 739433 "''New Delhi''"] r2 h2 by simp
  show ?thesis using 1 2 by simp
qed

lemma locate_card_primary:
  "locate_card doc = Some (Primary, c) \<Longrightarrow> \<exists>l. soup_find is_card doc = Some l \<and> c = Some (tag_of l)"
  by (cases "soup_find is_card doc"; cases "soup_find is_sunrise_key doc")
     (simp_all add: locate_card_def split: option.splits)

lemma locate_card_secondary:
  assumes "locate_card doc = Some (Secondary, c)"
  shows "\<exists>s p. soup_find is_sunrise_key doc = Some s \<and> c = Some p
           \<and> climb (find_parent_div (ancestors_of s)) = Some p"
proof (cases "soup_find is_card doc")
  case (Some l)
  then show ?thesis using assms by (simp add: locate_card_def)
next
  case None
  note no_card = None
  show ?thesis
  proof (cases "soup_find is_sunrise_key doc")
    case None
    then show ?thesis using assms no_card by (simp add: locate_card_def)
  next
    case (Some s)
    show ?thesis
    proof (cases "climb (find_parent_div (ancestors_of s))")
      case None
      then show ?thesis using assms no_card Some by (simp add: locate_card_def)
    next
      case (Some p)
      then have "locate_card doc = Some (Secondary, Some p)"
        using no_card \<open>soup_find is_sunrise_key doc = Some s\<close> by (simp add: locate_card_def)
      with assms have "c = Some p" by simp
      then show ?thesis using Some \<open>soup_find is_sunrise_key doc = Some s\<close> by blast
    qed
  qed
qed

lemma locate_card_tertiary:
  "locate_card doc = Some (Tertiary, c) \<Longrightarrow>
   \<exists>s. soup_find is_sunrise_key doc = Some s \<and> climb (find_parent_div (ancestors_of s)) = None
        \<and> c = map_option fst (find_parent_div (ancestors_of s))"
  by (cases "soup_find is_card doc"; cases "soup_find is_sunrise_key doc")
     (auto simp: locate_card_def split: option.splits)

lemma find_parent_div_is_div: "find_parent_div anc = Some (a, r) \<Longrightarrow> is_div a"
  by (induction anc) (auto split: if_splits)

lemma climb_is_div: "climb (find_parent_div anc) = Some p \<Longrightarrow> is_div p"
  by (auto simp: climb_find find_Some_iff dest: nth_mem)

text \<open>
  Claim C7, as amended. Only the second branch of the anchor search counts labels: an
  anchor it accepts is a \<^verbatim>\<open>div\<close> with at least 5 \<^verbatim>\<open>div.dpTableKey\<close> elements below
  it. The first branch accepts the \<^verbatim>\<open>div.dpPanchangCard\<close> as it is, and the last
  resort accepts the nearest enclosing \<^verbatim>\<open>div\<close> of the label \<^verbatim>\<open>Sunrise\<close>, which then
  has fewer than 5 such elements.
\<close>

theorem only_secondary_anchor_has_five_labels:
  "(locate_card doc = Some (Primary, c) \<longrightarrow> (\<exists>a. c = Some a \<and> is_card a))
   \<and> (locate_card doc = Some (Secondary, c) \<longrightarrow> (\<exists>a. c = Some a \<and> is_div a \<and> 5 \<le> key_count a))
   \<and> (locate_card doc = Some (Tertiary, Some a) \<longrightarrow> is_div a \<and> key_count a < 5)"
proof -
  have primary: "\<exists>a. c = Some a \<and> is_card a" if "locate_card doc = Some (Primary, c)"
  proof -
    from that obtain l where "soup_find is_card doc = Some l" and "c = Some (tag_of l)"
      using locate_card_primary by blast
    then show ?thesis by (auto simp: soup_find_def find_Some_iff)
  qed
  have secondary: "\<exists>a. c = Some a \<and> is_div a \<and> 5 \<le> key_count a"
    if "locate_card doc = Some (Secondary, c)"
  proof -
    from that obtain s p where "c = Some p" and "climb (find_parent_div (ancestors_of s)) = Some p"
      using locate_card_secondary by blast
    then show ?thesis using climb_enough climb_is_div by blast
  qed
  have tertiary: "is_div a \<and> key_count a < 5" if "locate_card doc = Some (Tertiary, Some a)"
  proof -
    from that obtain s where n: "climb (find_parent_div (ancestors_of s)) = None"
      and p: "map_option fst (find_parent_div (ancestors_of s)) = Some a"
      using locate_card_tertiary by fastforce
    from p obtain anc where q: "find_parent_div (ancestors_of s) = Some (a, anc)" by auto
    have "key_count a < 5" using n unfolding q by (auto split: if_splits)
    then show ?thesis using find_parent_div_is_div [OF q] by simp
  qed
  show ?thesis using primary secondary tertiary by blast
qed

theorem only_secondary_anchor_has_five_labels_witness:
  "locate_card page_nested = Some (Secondary, Some (hd page_nested))
   \<and> 5 \<le> key_count (hd page_nested)
   \<and> locate_card page_small = Some (Tertiary, Some (hd page_small))
   \<and> key_count (hd page_small) < 5
   \<and> is_card (Elem ''div'' [''dpPanchangCard''] [])"
proof -
  have n: "locate_card page_nested = Some (Secondary, Some (hd page_nested))" by code_simp
  have s: "locate_card page_small = Some (Tertiary, Some (hd page_small))" by code_simp
  have p: "locate_card page_empty_card = Some (Primary, Some (Elem ''div'' [''dpPanchangCard''] []))"
    by code_simp
  show ?thesis
    using n s p
      only_secondary_anchor_has_five_labels [of page_nested "Some (hd page_nested)"]
      only_secondary_anchor_has_five_labels [of page_small _ "hd page_small"]
      only_secondary_anchor_has_five_labels [of page_empty_card "Some (Elem ''div'' [''dpPanchangCard''] [])"]
    by simp
qed

text \<open>
  Claim C7 as stated fails: a card with no label at all is accepted by the first branch,
  and a \<^verbatim>\<open>div\<close> with two labels by the last resort.
\<close>

theorem accepted_anchor_without_labels:
  "locate_card page_empty_card = Some (Primary, Some (Elem ''div'' [''dpPanchangCard''] []))
   \<and> key_count (Elem ''div'' [''dpPanchangCard''] []) = 0
   \<and> locate_card page_small = Some (Tertiary, Some (hd page_small))
   \<and> key_count (hd page_small) = 2"
  by code_simp

section \<open>The three branches of the anchor search\<close>

lemma extract_day_v1_table:
  "extract_day_v1 e doc d =
     (case soup_find is_table doc of
        None \<Rightarrow> Inr None
      | Some t \<Rightarrow>
          if \<exists>k \<in> snd ` set fields. raises e k then Inl LookupFault
          else Inr (Some ((''date'', strftime e d ''%Y-%m-%d'')
                 # map (\<lambda>(field, key). (field, scan_rows key (find_all (has_class ''dpRow'') (tag_of t)))) fields)))"
  by (simp add: extract_day_v1_def assign_all_rows split: option.splits)

lemma field_of_record:
  "(field, key) \<in> set fields \<Longrightarrow>
   map_of ((''date'', x) # map (\<lambda>(f, k). (f, g k)) fields) field = Some (g key)"
  by (auto simp: fields_def)

text \<open>
  Claim C2, as amended. In \<^verbatim>\<open>src/api/app.py\<close> the anchor is the first
  \<^verbatim>\<open>div.dpPanchangCard\<close> of the page when there is one. Otherwise, when the page has a
  \<^verbatim>\<open>div.dpTableKey\<close> whose string is exactly \<^verbatim>\<open>Sunrise\<close>, the anchor is the nearest
  enclosing \<^verbatim>\<open>div\<close> of the first such label that has at least 5 \<^verbatim>\<open>div.dpTableKey\<close>
  elements below it, and when no enclosing \<^verbatim>\<open>div\<close> has that many, the nearest
  enclosing \<^verbatim>\<open>div\<close> of the label. No anchor is resolved when there is no such label or
  the label has no enclosing \<^verbatim>\<open>div\<close>, and the day then fails. \<^verbatim>\<open>src/app.py\<close> has the
  first branch only, on \<^verbatim>\<open>div.dpPanchang\<close>, and fails the day when it is absent.
\<close>

theorem anchor_resolution_tiers:
  "resolve_anchor doc =
     (case soup_find is_card doc of
        Some c \<Rightarrow> Some (tag_of c)
      | None \<Rightarrow>
          (case soup_find is_sunrise_key doc of
             None \<Rightarrow> None
           | Some s \<Rightarrow>
               (case List.find (\<lambda>a. 5 \<le> key_count a) (filter is_div (ancestors_of s)) of
                  Some a \<Rightarrow> Some a
                | None \<Rightarrow> (case filter is_div (ancestors_of s) of [] \<Rightarrow> None | a # r \<Rightarrow> Some a))))
   \<and> (resolve_anchor doc = None \<and> http_get e (url_of e d) = Some doc \<longrightarrow>
        snd (scrape_panchang_for_day e d l) = None)
   \<and> (extract_day_v1 e doc d = Inr None \<longleftrightarrow> soup_find is_table doc = None)
   \<and> (soup_find is_table doc = None \<and> http_get e (url_of e d) = Some doc \<longrightarrow>
        snd (scrape_panchang_for_day_v1 e d l) = None)"
proof -
  have "extract_day_v1 e doc d = Inr None \<longleftrightarrow> soup_find is_table doc = None"
    by (simp add: extract_day_v1_table split: option.splits)
  moreover have "snd (scrape_panchang_for_day_v1 e d l) = None"
    if "soup_find is_table doc = None" and "http_get e (url_of e d) = Some doc"
    using that by (simp add: scrape_panchang_for_day_v1_def extract_day_v1_table)
  ultimately show ?thesis
    using resolve_anchor_tiers [of doc] scrape_no_anchor [of e d doc l] by blast
qed

theorem anchor_resolution_tiers_witness:
  "resolve_anchor page_card = Some (Elem ''div'' [''dpPanchangCard'']
           [key_div ''Sunrise'', value_div '' 06:01 AM '', key_div ''Sunset'', value_div ''07:02 PM'',
            key_div ''Tithi'', value_div ''Pratipada'', key_div ''Nakshatra'', value_div ''Ashwini'',
            key_div ''Yoga'', value_div ''Siddha'', key_div ''Karana'', value_div ''Bava''])
   \<and> resolve_anchor page_nested = Some (hd page_nested)
   \<and> resolve_anchor page_small = Some (hd page_small)
   \<and> resolve_anchor page_other = None
   \<and> snd (scrape_panchang_for_day (demo_env (Some page_other) []) 739433 ''New Delhi'') = None
   \<and> snd (scrape_panchang_for_day_v1 (demo_env (Some page_card) []) 739433 ''New Delhi'') = None"
proof -
  let ?rhs = "\<lambda>doc. (case soup_find is_card doc of
        Some c \<Rightarrow> Some (tag_of c)
      | None \<Rightarrow>
          (case soup_find is_sunrise_key doc of
             None \<Rightarrow> None
           | Some s \<Rightarrow>
               (case List.find (\<lambda>a. 5 \<le> key_count a) (filter is_div (ancestors_of s)) of
                  Some a \<Rightarrow> Some a
                | None \<Rightarrow> (case filter is_div (ancestors_of s) of [] \<Rightarrow> None | a # r \<Rightarrow> Some a))))"
  have 1: "?rhs page_card = Some (Elem ''div'' [''dpPanchangCard'']
           [key_div ''Sunrise'', value_div '' 06:01 AM '', key_div ''Sunset'', value_div ''07:02 PM'',
            key_div ''Tithi'', value_div ''Pratipada'', key_div ''Nakshatra'', value_div ''Ashwini'',
            key_div ''Yoga'', value_div ''Siddha'', key_div ''Karana'', value_div ''Bava''])"
    by code_simp
  have 2: "?rhs page_nested = Some (hd page_nested)" by code_simp
  have 3: "?rhs page_small = Some (hd page_small)" by code_simp
  have 4: "?rhs page_other = None" by code_simp
  have 5: "soup_find is_table page_card = None" by code_simp
  let ?e = "demo_env (Some page_other) []"
  let ?f = "demo_env (Some page_card) []"
  have h: "http_get ?e (url_of ?e 739433) = Some page_other"
    "http_get ?f (url_of ?f 739433) = Some page_card"
    by (simp_all add: demo_env_def)
  have a: "resolve_anchor page_card = ?rhs page_card"
    using anchor_resolution_tiers [of page_card] by blast
  have b: "resolve_anchor page_nested = ?rhs page_nested"
    using anchor_resolution_tiers [of page_nested] by blast
  have c: "resolve_anchor page_small = ?rhs page_small"
    using anchor_resolution_tiers [of page_small] by blast
  have d: "resolve_anchor page_other = ?rhs page_other"
    and d': "snd (scrape_panchang_for_day ?e 739433 ''New Delhi'') = None"
    using anchor_resolution_tiers [of page_other ?e 739433 "''New Delhi''"] 4 h(1) by simp_all
  have f: "snd (scrape_panchang_for_day_v1 ?f 739433 ''New Delhi'') = None"
    using anchor_resolution_tiers [of page_card ?f 739433 "''New Delhi''"] 5 h(2) by blast
  show ?thesis using a b c d d' f 1 2 3 4 by simp
qed

text \<open>
  Claim C2 as stated fails where the label \<^verbatim>\<open>Sunrise\<close> exists and has a parent but no
  enclosing \<^verbatim>\<open>div\<close>: the last resort then finds nothing, no anchor is resolved, and the
  day fails.
\<close>

theorem sunrise_label_without_enclosing_div:
  "map_option tag_of (soup_find is_sunrise_key page_orphan) = Some (key_div ''Sunrise'')
   \<and> map_option ancestors_of (soup_find is_sunrise_key page_orphan)
       = Some [Elem ''body'' [] [key_div ''Sunrise'', value_div ''06:01 AM''],
               Elem ''html'' [] [Elem ''body'' [] [key_div ''Sunrise'', value_div ''06:01 AM'']]]
   \<and> resolve_anchor page_orphan = None
   \<and> snd (scrape_panchang_for_day (demo_env (Some page_orphan) []) 739433 ''New Delhi'') = None"
  by code_simp

section \<open>The value of one field\<close>

lemma get_value_from_table_scan:
  "get_value_from_table e a key =
     (if raises e key then not_found else scan_keys key (find_all is_key a))"
  by (simp add: get_value_from_table_def table_lookup_def)

text \<open>
  Claim C4, as amended. In \<^verbatim>\<open>src/api/app.py\<close> a label matches a key exactly when the
  lower-cased key occurs as a substring of the label's normalized text, and the first
  matching label in document order determines the value of the field. The normalized
  text is \<open>lower (joined_text label)\<close>: the strings of the text of the label (ordinary
  text and CDATA sections below it, not comments and not what is inside a \<^verbatim>\<open>style\<close>,
  \<^verbatim>\<open>script\<close>, \<^verbatim>\<open>template\<close>, \<^verbatim>\<open>rt\<close> or \<^verbatim>\<open>rp\<close> tag), each stripped, the empty ones
  dropped, the rest joined by single spaces, lower-cased. In \<^verbatim>\<open>src/app.py\<close> a row
  matches when the key occurs, in the case it is written in, in \<open>get_text\<close> of the row's
  first \<^verbatim>\<open>dpLabel\<close> element, which is the same strings concatenated as they are, and
  the first matching row determines the value. Both hold when the helper does not raise.
\<close>

theorem key_matching_is_first_containing_label:
  "(\<not> raises e key \<longrightarrow>
      get_value_from_table e a key =
        (case List.find (\<lambda>k. sublist (lower key) (lower (joined_text (tag_of k))))
                (find_all is_key a) of
           None \<Rightarrow> not_found
         | Some k \<Rightarrow>
             (case find_next_sibling is_value k of Some v \<Rightarrow> joined_text v | None \<Rightarrow> not_found)))
   \<and> (\<not> raises e key \<longrightarrow>
        get_value_from_row e rows key =
          Inr (case List.find (\<lambda>r. case find_in (has_class ''dpLabel'') (tag_of r) of
                                     None \<Rightarrow> False
                                   | Some lab \<Rightarrow> sublist key (get_text (tag_of lab))) rows of
                 None \<Rightarrow> not_found
               | Some r \<Rightarrow>
                   (case find_in (has_class ''dpValue'') (tag_of r) of
                      Some v \<Rightarrow> strip (get_text (tag_of v))
                    | None \<Rightarrow> not_found)))"
  by (simp add: get_value_from_table_scan scan_keys_first_label first_label_def
      get_value_from_row_def scan_rows_first_row first_row_def str_in_sublist
      cong: option.case_cong)

theorem key_matching_is_first_containing_label_witness:
  "get_value_from_table (demo_env None []) (hd page_no_value) ''SUNRISE'' = ''06:01 AM''
   \<and> get_value_from_row (demo_env None []) (find_all (has_class ''dpRow'') (hd page_rows)) ''Sun''
       = Inr ''06:01 AM''
   \<and> get_value_from_table (demo_env None []) (hd page_styled) ''Tithi'' = ''Pratipada''
   \<and> get_value_from_table (demo_env None []) (hd page_styled) ''Yoga'' = ''Not Found''
   \<and> get_value_from_table (demo_env None []) (hd (contents (hd page_template))) ''Sunrise''
       = ''Not Found''
   \<and> get_value_from_row (demo_env None []) (find_all (has_class ''dpRow'') (hd page_rows_styled))
         ''Sunrise'' = Inr ''06:01 AM''"
proof -
  let ?e = "demo_env None []"
  let ?table = "\<lambda>a key.
        (case List.find (\<lambda>k. sublist (lower key) (lower (joined_text (tag_of k))))
                (find_all is_key a) of
           None \<Rightarrow> not_found
         | Some k \<Rightarrow>
             (case find_next_sibling is_value k of Some v \<Rightarrow> joined_text v | None \<Rightarrow> not_found))"
  let ?row = "\<lambda>rows key.
        (case List.find (\<lambda>r. case find_in (has_class ''dpLabel'') (tag_of r) of
                                     None \<Rightarrow> False
                                   | Some lab \<Rightarrow> sublist key (get_text (tag_of lab))) rows of
                 None \<Rightarrow> not_found
               | Some r \<Rightarrow>
                   (case find_in (has_class ''dpValue'') (tag_of r) of
                      Some v \<Rightarrow> strip (get_text (tag_of v))
                    | None \<Rightarrow> not_found))"
  have r: "\<not> raises ?e key" for key by (simp add: demo_env_def)
  have 1: "?table (hd page_no_value) ''SUNRISE'' = ''06:01 AM''" by code_simp
  have 2: "?row (find_all (has_class ''dpRow'') (hd page_rows)) ''Sun'' = ''06:01 AM''"
    by code_simp
  have 3: "?table (hd page_styled) ''Tithi'' = ''Pratipada''" by code_simp
  have 4: "?table (hd page_styled) ''Yoga'' = ''Not Found''" by code_simp
  have 5: "?table (hd (contents (hd page_template))) ''Sunrise'' = ''Not Found''" by code_simp
  have 6: "?row (find_all (has_class ''dpRow'') (hd page_rows_styled)) ''Sunrise'' = ''06:01 AM''"
    by code_simp
  show ?thesis
    using key_matching_is_first_containing_label [of ?e "''SUNRISE''" "hd page_no_value"]
      key_matching_is_first_containing_label
        [of ?e "''Sun''" _ "find_all (has_class ''dpRow'') (hd page_rows)"]
      key_matching_is_first_containing_label [of ?e "''Tithi''" "hd page_styled"]
      key_matching_is_first_containing_label [of ?e "''Yoga''" "hd page_styled"]
      key_matching_is_first_containing_label [of ?e "''Sunrise''" "hd (contents (hd page_template))"]
      key_matching_is_first_containing_label
        [of ?e "''Sunrise''" _ "find_all (has_class ''dpRow'') (hd page_rows_styled)"]
      r
    by (simp only: 1 2 3 4 5 6 simp_thms)
qed

text \<open>
  Claim C4 as stated fails in \<^verbatim>\<open>src/app.py\<close>, where the label \<^verbatim>\<open>SUNRISE\<close> contains
  the key \<^verbatim>\<open>Sunrise\<close> once both are lower-cased and yet the field is
  \<^verbatim>\<open>Not Found\<close>. In \<^verbatim>\<open>src/api/app.py\<close> a label written in two fragments contains the
  key when the fragments are concatenated, but not when they are joined by a space as the
  code does.
\<close>

theorem row_matching_is_case_sensitive:
  "str_in (lower ''Sunrise'') (spec_normalized (Elem ''span'' [''dpLabel''] [Text ''SUNRISE'']))
   \<and> get_value_from_row (demo_env None []) (find_all (has_class ''dpRow'') (hd page_rows_upper))
         ''Sunrise'' = Inr ''Not Found''
   \<and> snd (scrape_panchang_for_day_v1 (demo_env (Some page_rows_upper) []) 739433 ''New Delhi'')
       = Some [(''date'', ''2025-07-01''), (''sunrise'', ''Not Found''), (''sunset'', ''Not Found''),
               (''tithi'', ''Not Found''), (''nakshatra'', ''Not Found''), (''yoga'', ''Not Found''),
               (''karana'', ''Not Found'')]
   \<and> str_in (lower ''Nakshatra'') (spec_normalized split_label)
   \<and> get_value_from_table (demo_env None []) (hd page_split) ''Nakshatra'' = ''Not Found''"
  by code_simp

lemma get_value_from_table_no_value:
  "first_label a key = Some k \<Longrightarrow> find_next_sibling is_value k = None \<Longrightarrow>
   get_value_from_table e a key = not_found"
  by (simp add: get_value_from_table_scan scan_keys_first_label)

lemma get_value_from_table_value:
  "\<not> raises e key \<Longrightarrow> first_label a key = Some k \<Longrightarrow> find_next_sibling is_value k = Some v \<Longrightarrow>
   get_value_from_table e a key = joined_text v"
  by (simp add: get_value_from_table_scan scan_keys_first_label)

text \<open>
  Claim C5, as amended. Let the key of one of the six fields have a matching label. In
  \<^verbatim>\<open>src/api/app.py\<close>, when the first matching label has no \<^verbatim>\<open>div.dpTableValue\<close> among
  the siblings that follow it, the field is \<^verbatim>\<open>Not Found\<close>, the record of the day is
  still returned, and every other field whose first matching label has such a sibling
  holds the text of the first one (unless its own lookup raised). In \<^verbatim>\<open>src/app.py\<close>,
  when the first matching row has no \<^verbatim>\<open>dpValue\<close> element in it and no lookup raises,
  the field is \<^verbatim>\<open>Not Found\<close>, the record is returned, and every other field whose first
  matching row has a value element holds its stripped text.
\<close>

theorem missing_value_is_not_found:
  assumes "(field, key) \<in> set fields"
  shows "(resolve_anchor doc = Some a \<and> first_label a key = Some k
            \<and> find_next_sibling is_value k = None \<longrightarrow>
          (\<exists>data. extract_day e doc d = Inr (Some data)
             \<and> map_of data field = Some not_found
             \<and> (\<forall>(f, k') \<in> set fields. \<forall>k2 v.
                   \<not> raises e k' \<and> first_label a k' = Some k2
                     \<and> find_next_sibling is_value k2 = Some v
                   \<longrightarrow> map_of data f = Some (joined_text v))))
       \<and> (soup_find is_table doc = Some t \<and> (\<forall>(f, k') \<in> set fields. \<not> raises e k')
            \<and> first_row (find_all (has_class ''dpRow'') (tag_of t)) key = Some r
            \<and> find_in (has_class ''dpValue'') (tag_of r) = None \<longrightarrow>
          (\<exists>data. extract_day_v1 e doc d = Inr (Some data)
             \<and> map_of data field = Some not_found
             \<and> (\<forall>(f, k') \<in> set fields. \<forall>r2 v.
                   first_row (find_all (has_class ''dpRow'') (tag_of t)) k' = Some r2
                     \<and> find_in (has_class ''dpValue'') (tag_of r2) = Some v
                   \<longrightarrow> map_of data f = Some (strip (get_text (tag_of v))))))"
proof (intro conjI impI)
  assume h: "resolve_anchor doc = Some a \<and> first_label a key = Some k
            \<and> find_next_sibling is_value k = None"
  let ?data = "(''date'', strftime e d ''%Y-%m-%d'')
                 # map (\<lambda>(field, key). (field, get_value_from_table e a key)) fields"
  have 1: "extract_day e doc d = Inr (Some ?data)" using h by (simp add: extract_day_anchor)
  have 2: "map_of ?data field = Some not_found"
    using field_of_record [OF assms, of _ "get_value_from_table e a"] h
    by (simp add: get_value_from_table_no_value)
  have 3: "map_of ?data f = Some (joined_text v)"
    if "(f, k') \<in> set fields" and "\<not> raises e k'" and "first_label a k' = Some k2"
      and "find_next_sibling is_value k2 = Some v" for f k' k2 v
    using field_of_record [OF that(1), of _ "get_value_from_table e a"] that(2-4)
    by (simp add: get_value_from_table_value)
  show "\<exists>data. extract_day e doc d = Inr (Some data)
             \<and> map_of data field = Some not_found
             \<and> (\<forall>(f, k') \<in> set fields. \<forall>k2 v.
                   \<not> raises e k' \<and> first_label a k' = Some k2
                     \<and> find_next_sibling is_value k2 = Some v
                   \<longrightarrow> map_of data f = Some (joined_text v))"
    using 1 2 3 by blast
next
  assume h: "soup_find is_table doc = Some t \<and> (\<forall>(f, k') \<in> set fields. \<not> raises e k')
            \<and> first_row (find_all (has_class ''dpRow'') (tag_of t)) key = Some r
            \<and> find_in (has_class ''dpValue'') (tag_of r) = None"
  let ?rows = "find_all (has_class ''dpRow'') (tag_of t)"
  let ?data = "(''date'', strftime e d ''%Y-%m-%d'')
                 # map (\<lambda>(field, key). (field, scan_rows key ?rows)) fields"
  have nf: "\<not> (\<exists>k \<in> snd ` set fields. raises e k)" using h by auto
  have 1: "extract_day_v1 e doc d = Inr (Some ?data)"
    using h nf by (simp add: extract_day_v1_table)
  have 2: "map_of ?data field = Some not_found"
    using field_of_record [OF assms, of _ "\<lambda>key. scan_rows key ?rows"] h
    by (simp add: scan_rows_first_row)
  have 3: "map_of ?data f = Some (strip (get_text (tag_of v)))"
    if "(f, k') \<in> set fields" and "first_row ?rows k' = Some r2"
      and "find_in (has_class ''dpValue'') (tag_of r2) = Some v" for f k' r2 v
    using field_of_record [OF that(1), of _ "\<lambda>key. scan_rows key ?rows"] that(2-3)
    by (simp add: scan_rows_first_row)
  show "\<exists>data. extract_day_v1 e doc d = Inr (Some data)
             \<and> map_of data field = Some not_found
             \<and> (\<forall>(f, k') \<in> set fields. \<forall>r2 v.
                   first_row (find_all (has_class ''dpRow'') (tag_of t)) k' = Some r2
                     \<and> find_in (has_class ''dpValue'') (tag_of r2) = Some v
                   \<longrightarrow> map_of data f = Some (strip (get_text (tag_of v))))"
    using 1 2 3 by blast
qed

theorem missing_value_is_not_found_witness:
  "(\<exists>data. extract_day (demo_env None []) page_no_value 739433 = Inr (Some data)
      \<and> map_of data ''tithi'' = Some ''Not Found'' \<and> map_of data ''sunrise'' = Some ''06:01 AM'')
   \<and> (\<exists>data. extract_day_v1 (demo_env None []) page_rows 739433 = Inr (Some data)
      \<and> map_of data ''tithi'' = Some ''Not Found'' \<and> map_of data ''sunrise'' = Some ''06:01 AM'')"
proof -
  let ?e = "demo_env None []"
  let ?k = "([], key_div ''Tithi'', [])"
  let ?s = "([], key_div ''Sunrise'', [value_div ''06:01 AM'', key_div ''Tithi''])"
  have m: "(''tithi'', ''Tithi'') \<in> set fields" and m2: "(''sunrise'', ''Sunrise'') \<in> set fields"
    by (simp_all add: fields_def)
  have nf: "not_found = ''Not Found''" by (simp add: not_found_def)
  have r: "\<forall>(f, k') \<in> set fields. \<not> raises ?e k'" "\<not> raises ?e ''Sunrise''"
    by (simp_all add: demo_env_def)
  have a: "resolve_anchor page_no_value = Some (hd page_no_value)" by code_simp
  have b: "first_label (hd page_no_value) ''Tithi'' = Some ?k" by code_simp
  have c: "find_next_sibling is_value ?k = None" by code_simp
  have s1: "first_label (hd page_no_value) ''Sunrise'' = Some ?s" by code_simp
  have s2: "find_next_sibling is_value ?s = Some (value_div ''06:01 AM'')" by code_simp
  have s3: "joined_text (value_div ''06:01 AM'') = ''06:01 AM''" by code_simp
  from missing_value_is_not_found [OF m, of page_no_value "hd page_no_value" ?k ?e 739433] a b c
  obtain data where d: "extract_day ?e page_no_value 739433 = Inr (Some data)"
      "map_of data ''tithi'' = Some not_found"
    and rest: "\<forall>(f, k') \<in> set fields. \<forall>k2 v.
                   \<not> raises ?e k' \<and> first_label (hd page_no_value) k' = Some k2
                     \<and> find_next_sibling is_value k2 = Some v
                   \<longrightarrow> map_of data f = Some (joined_text v)"
    by blast
  from rest m2 r(2) s1 s2 have "map_of data ''sunrise'' = Some (joined_text (value_div ''06:01 AM''))"
    by fast
  with d have 1: "\<exists>data. extract_day ?e page_no_value 739433 = Inr (Some data)
      \<and> map_of data ''tithi'' = Some ''Not Found'' \<and> map_of data ''sunrise'' = Some ''06:01 AM''"
    by (simp add: s3 nf)
  let ?t = "([], hd page_rows, [])"
  let ?rows = "find_all (has_class ''dpRow'') (hd page_rows)"
  let ?r = "([], row_div ''Tithi'' [], [])"
  let ?r2 = "([], row_div ''Sunrise'' [value_span '' 06:01 AM ''], [row_div ''Tithi'' []])"
  have t: "soup_find is_table page_rows = Some ?t" by code_simp
  have tt: "tag_of ?t = hd page_rows" by (simp add: tag_of_def)
  have b': "first_row ?rows ''Tithi'' = Some ?r" by code_simp
  have c': "find_in (has_class ''dpValue'') (tag_of ?r) = None" by code_simp
  have s1': "first_row ?rows ''Sunrise'' = Some ?r2" by code_simp
  have "map_option (\<lambda>v. strip (get_text (tag_of v))) (find_in (has_class ''dpValue'') (tag_of ?r2))
          = Some ''06:01 AM''" by code_simp
  then obtain v where s2': "find_in (has_class ''dpValue'') (tag_of ?r2) = Some v"
    and s4': "strip (get_text (tag_of v)) = ''06:01 AM''" by blast
  from missing_value_is_not_found [OF m, of page_rows _ _ ?e 739433 ?t ?r] t b' c' r(1)
  obtain data' where d': "extract_day_v1 ?e page_rows 739433 = Inr (Some data')"
      "map_of data' ''tithi'' = Some not_found"
    and rest': "\<forall>(f, k') \<in> set fields. \<forall>r2 v.
                   first_row (find_all (has_class ''dpRow'') (tag_of ?t)) k' = Some r2
                     \<and> find_in (has_class ''dpValue'') (tag_of r2) = Some v
                   \<longrightarrow> map_of data' f = Some (strip (get_text (tag_of v)))"
    unfolding tt by blast
  from rest' m2 s1' s2' have "map_of data' ''sunrise'' = Some (strip (get_text (tag_of v)))"
    unfolding tt by fast
  with d' have 2: "\<exists>data. extract_day_v1 ?e page_rows 739433 = Inr (Some data)
      \<and> map_of data ''tithi'' = Some ''Not Found'' \<and> map_of data ''sunrise'' = Some ''06:01 AM''"
    by (simp add: s4' nf)
  show ?thesis using 1 2 by blast
qed

text \<open>
  Claim C5 as stated fails where the element that follows the label is not a value
  element but a later sibling is: the label \<^verbatim>\<open>Tithi\<close> is followed at once by the label
  \<^verbatim>\<open>Nakshatra\<close>, and the field \<^verbatim>\<open>tithi\<close> takes the value that belongs to
  \<^verbatim>\<open>Nakshatra\<close> instead of \<^verbatim>\<open>Not Found\<close>.
\<close>

theorem value_taken_from_a_later_label:
  "resolve_anchor page_gap = Some (hd page_gap)
   \<and> first_label (hd page_gap) ''Tithi''
       = Some ([], key_div ''Tithi'', [key_div ''Nakshatra'', value_div ''Ashwini''])
   \<and> \<not> is_value (key_div ''Nakshatra'')
   \<and> extract_day (demo_env None []) page_gap 739433
       = Inr (Some [(''date'', ''2025-07-01''), (''sunrise'', ''Not Found''), (''sunset'', ''Not Found''),
                    (''tithi'', ''Ashwini''), (''nakshatra'', ''Ashwini''), (''yoga'', ''Not Found''),
                    (''karana'', ''Not Found'')])"
  by code_simp

section \<open>Exceptions in the lookup of one field\<close>

text \<open>
  Claim C6, as amended. In \<^verbatim>\<open>src/api/app.py\<close> an exception raised while
  \<^verbatim>\<open>get_value_from_table\<close> works on a key is caught in the helper and gives
  \<^verbatim>\<open>Not Found\<close> for that key only: whenever an anchor is resolved the day is a record in
  which each key that raised is \<^verbatim>\<open>Not Found\<close> and each other key has the value its own
  lookup finds. In \<^verbatim>\<open>src/app.py\<close> the helper \<^verbatim>\<open>get_value_from_row\<close> has no handler:
  an exception raised for any of the six keys reaches the handler of the day, and the day
  is reported as failed.
\<close>

theorem lookup_fault_is_local_in_get_value_from_table:
  "(resolve_anchor doc = Some a \<longrightarrow>
      extract_day e doc d =
        Inr (Some ((''date'', strftime e d ''%Y-%m-%d'')
               # map (\<lambda>(field, key).
                        (field, if raises e key then not_found
                                else scan_keys key (find_all is_key a))) fields)))
   \<and> (soup_find is_table doc = Some t \<and> (\<exists>key \<in> snd ` set fields. raises e key) \<longrightarrow>
        extract_day_v1 e doc d = Inl LookupFault
        \<and> (http_get e (url_of e d) = Some doc \<longrightarrow> snd (scrape_panchang_for_day_v1 e d l) = None))"
proof (intro conjI impI)
  assume "resolve_anchor doc = Some a"
  then show "extract_day e doc d =
        Inr (Some ((''date'', strftime e d ''%Y-%m-%d'')
               # map (\<lambda>(field, key).
                        (field, if raises e key then not_found
                                else scan_keys key (find_all is_key a))) fields))"
    by (simp add: extract_day_anchor get_value_from_table_scan)
next
  assume h: "soup_find is_table doc = Some t \<and> (\<exists>key \<in> snd ` set fields. raises e key)"
  then show x: "extract_day_v1 e doc d = Inl LookupFault"
    by (simp add: extract_day_v1_table)
  assume "http_get e (url_of e d) = Some doc"
  then show "snd (scrape_panchang_for_day_v1 e d l) = None"
    using x by (simp add: scrape_panchang_for_day_v1_def)
qed

theorem lookup_fault_is_local_in_get_value_from_table_witness:
  "extract_day (demo_env None [''Tithi'', ''Yoga'']) page_card 739433
     = Inr (Some [(''date'', ''2025-07-01''), (''sunrise'', ''06:01 AM''), (''sunset'', ''07:02 PM''),
                  (''tithi'', ''Not Found''), (''nakshatra'', ''Ashwini''), (''yoga'', ''Not Found''),
                  (''karana'', ''Bava'')])
   \<and> extract_day_v1 (demo_env (Some page_rows) [''Tithi'']) page_rows 739433 = Inl LookupFault
   \<and> snd (scrape_panchang_for_day_v1 (demo_env (Some page_rows) [''Tithi'']) 739433 ''New Delhi'') = None"
proof -
  let ?e = "demo_env None [''Tithi'', ''Yoga'']"
  let ?f = "demo_env (Some page_rows) [''Tithi'']"
  let ?a = "hd (contents (hd (contents (hd page_card))))"
  have a: "resolve_anchor page_card = Some ?a" by code_simp
  have v: "(''date'', strftime ?e 739433 ''%Y-%m-%d'')
               # map (\<lambda>(field, key).
                        (field, if raises ?e key then not_found
                                else scan_keys key (find_all is_key ?a))) fields
           = [(''date'', ''2025-07-01''), (''sunrise'', ''06:01 AM''), (''sunset'', ''07:02 PM''),
                  (''tithi'', ''Not Found''), (''nakshatra'', ''Ashwini''), (''yoga'', ''Not Found''),
                  (''karana'', ''Bava'')]"
    by code_simp
  have t: "soup_find is_table page_rows = Some ([], hd page_rows, [])" by code_simp
  have x: "\<exists>key \<in> snd ` set fields. raises ?f key" by code_simp
  have h: "http_get ?f (url_of ?f 739433) = Some page_rows" by (simp add: demo_env_def)
  have 1: "extract_day ?e page_card 739433
     = Inr (Some [(''date'', ''2025-07-01''), (''sunrise'', ''06:01 AM''), (''sunset'', ''07:02 PM''),
                  (''tithi'', ''Not Found''), (''nakshatra'', ''Ashwini''), (''yoga'', ''Not Found''),
                  (''karana'', ''Bava'')])"
    using lookup_fault_is_local_in_get_value_from_table [of page_card ?a ?e 739433] a
    by (simp only: v simp_thms)
  have 2: "extract_day_v1 ?f page_rows 739433 = Inl LookupFault
     \<and> snd (scrape_panchang_for_day_v1 ?f 739433 ''New Delhi'') = None"
    using lookup_fault_is_local_in_get_value_from_table
        [of page_rows _ ?f 739433 "([], hd page_rows, [])" "''New Delhi''"] t x h
    by blast
  show ?thesis using 1 2 by blast
qed

text \<open>
  Claim C6 as stated fails in \<^verbatim>\<open>src/app.py\<close>: on a page whose day is a record when
  nothing raises, an exception in the lookup of \<^verbatim>\<open>Tithi\<close> makes the day fail, and the
  handler appends the error entry.
\<close>

theorem lookup_fault_fails_the_day_in_get_value_from_row:
  "snd (scrape_panchang_for_day_v1 (demo_env (Some page_rows) [''Tithi'']) 739433 ''New Delhi'') = None
   \<and> snd (scrape_panchang_for_day_v1 (demo_env (Some page_rows) []) 739433 ''New Delhi'')
       = Some [(''date'', ''2025-07-01''), (''sunrise'', ''06:01 AM''), (''sunset'', ''Not Found''),
               (''tithi'', ''Not Found''), (''nakshatra'', ''Not Found''), (''yoga'', ''Not Found''),
               (''karana'', ''Not Found'')]
   \<and> get_panchang_v1 (demo_env (Some page_rows) [''Tithi'']) (Some ''2025-07-01'') (Some ''2025-07-01'')
         (Some ''New Delhi'')
       = (Inr (PanchangJson [[(''date'', ''2025-07-01''),
                              (''error'', ''Failed to retrieve data for this day.'')]], 200),
          [Parse ''2025-07-01'', Parse ''2025-07-01'',
           Fetch ''https://www.drikpanchang.com/panchang/day-panchang.html?geoname-id=1261481&date=01/07/2025''])"
  by code_simp

end
